theory Spec2Isabelle
  imports Complex_Main "HOL-Library.Word"
begin

unbundle bit_operations_syntax

section \<open>RPLIDAR A2 proximity driver: data model\<close>

text \<open>
  A shallow embedding of \<^verbatim>\<open>libraries/AP_Proximity/AP_Proximity_RPLidarA2.cpp\<close> and its
  header. Member names are those of the class with the leading underscore removed.

  Conventions of the embedding:
  \<^item> \<^verbatim>\<open>uint8_t\<close>, \<^verbatim>\<open>uint16_t\<close> and \<^verbatim>\<open>uint32_t\<close> members of the decoder are words of
    that width, so that \<^verbatim>\<open>++\<close> and the millisecond differences wrap as in C++.
  \<^item> \<^verbatim>\<open>float\<close> values are real numbers. The only float values the sector code compares
    are \<^verbatim>\<open>angle_q6/64.0f\<close> (exact in single precision: a 15-bit integer over a power of
    two), \<^verbatim>\<open>distance_q2/4000.0f\<close> for a 16-bit integer and the constant \<^verbatim>\<open>0.20f\<close>;
    rounding to single precision is monotone and keeps two different 16-bit quotients
    apart, so the comparisons come out as on the exact quotients.
  \<^item> Fixed-size byte buffers are lists; a store is a list update. The buffers of the
    base class that are indexed by sector are functions from the index.
  \<^item> \<^verbatim>\<open>AP_HAL::millis()\<close> is an argument: every received byte carries the clock reading
    that holds while it is processed.
  \<^item> \<^verbatim>\<open>Debug(...)\<close> expands to nothing (\<^verbatim>\<open>RP_DEBUG_LEVEL\<close> is 0).
  \<^item> Bytes written to the UART and calls into the boundary code of the base class are
    appended to two logs, \<open>uart_tx\<close> and \<open>boundary_log\<close>.
  \<^item> The front/back obstacle estimate in the middle of \<^verbatim>\<open>parse_response_data\<close> reads only
    the two locals \<^verbatim>\<open>angle_deg\<close> and \<^verbatim>\<open>distance_m\<close> and writes only its own variables
    (\<^verbatim>\<open>angle_left_front\<close>, \<^verbatim>\<open>point_front_find\<close>, \<^verbatim>\<open>L_left_front\<close>,
    \<^verbatim>\<open>avoid_distance_front\<close>, \<^verbatim>\<open>lidarA2_test\<close>, ... and their \<^verbatim>\<open>back\<close> twins), which
    nothing else in the driver reads. It is computed with \<^verbatim>\<open>sinf\<close> and \<^verbatim>\<open>cosf\<close> and is
    not part of this embedding; the state below has none of its variables.
\<close>

type_synonym uint8_t = "8 word"
type_synonym uint16_t = "16 word"
type_synonym uint32_t = "32 word"

definition RPLIDAR_PREAMBLE :: uint8_t where "RPLIDAR_PREAMBLE = 0xA5"
definition RPLIDAR_CMD_SCAN :: uint8_t where "RPLIDAR_CMD_SCAN = 0x20"
definition RPLIDAR_CMD_RESET :: uint8_t where "RPLIDAR_CMD_RESET = 0x40"

definition COMM_ACTIVITY_TIMEOUT_MS :: uint32_t where "COMM_ACTIVITY_TIMEOUT_MS = 200"
definition RESYNC_TIMEOUT :: uint32_t where "RESYNC_TIMEOUT = 5000"

datatype rp_state = rp_unknown | rp_resetted | rp_responding | rp_measurements | rp_health

datatype ResponseType =
  ResponseType_Descriptor | ResponseType_SCAN | ResponseType_EXPRESS | ResponseType_Health

text \<open>The two values of the frontend's status that this driver sets.\<close>

datatype Proximity_Status = Proximity_NoData | Proximity_Good

text \<open>Calls into the boundary code of \<^verbatim>\<open>AP_Proximity_Backend\<close>, in the order made.\<close>

datatype boundary_call = init_boundary | update_boundary_for_sector nat

record lidar =
  uart :: bool  \<comment> \<open>\<^verbatim>\<open>_uart != nullptr\<close>\<close>
  uart_tx :: "uint8_t list"  \<comment> \<open>bytes handed to \<^verbatim>\<open>_uart->write\<close>\<close>
  descriptor :: "uint8_t list"  \<comment> \<open>\<^verbatim>\<open>uint8_t _descriptor[7]\<close>\<close>
  rp_systeminfo :: "uint8_t list"  \<comment> \<open>\<^verbatim>\<open>char _rp_systeminfo[63]\<close>\<close>
  descriptor_data :: bool
  information_data :: bool
  resetted :: bool
  initialised :: bool
  sector_initialised :: bool
  payload_length :: uint8_t
  cnt :: uint8_t
  sync_error :: uint8_t
  byte_count :: uint16_t
  response_type :: ResponseType
  rp_state :: rp_state
  last_sector :: nat
  last_request_ms :: uint32_t
  last_distance_received_ms :: uint32_t
  last_reset_ms :: uint32_t
  angle_deg_last :: real
  distance_m_last :: real
  payload :: "uint8_t list"  \<comment> \<open>the 5-byte union \<^verbatim>\<open>payload\<close>, as bytes\<close>
  angle :: "nat \<Rightarrow> real"  \<comment> \<open>\<^verbatim>\<open>_angle[]\<close> of the base class\<close>
  distance :: "nat \<Rightarrow> real"  \<comment> \<open>\<^verbatim>\<open>_distance[]\<close>\<close>
  distance_valid :: "nat \<Rightarrow> bool"  \<comment> \<open>\<^verbatim>\<open>_distance_valid[]\<close>\<close>
  num_sectors :: nat
  sector_middle_deg :: "nat \<Rightarrow> real"
  sector_width_deg :: "nat \<Rightarrow> int"
  status :: "Proximity_Status option"  \<comment> \<open>\<open>None\<close> until \<^verbatim>\<open>set_status\<close> is first called\<close>
  boundary_log :: "boundary_call list"

text \<open>
  What the driver takes from \<^verbatim>\<open>AP_Proximity_Backend\<close> and \<^verbatim>\<open>AP_Proximity.h\<close>, which are
  not among the sources at hand: the constant \<^verbatim>\<open>PROXIMITY_SECTORS_MAX\<close>, the ignore-area
  accessors (\<^verbatim>\<open>get_ignore_area\<close> yields angle and width, or \<open>None\<close> where it returns
  false; \<^verbatim>\<open>get_next_ignore_start_or_end\<close> yields the value it leaves in its reference
  argument), the conversion that the element type of \<^verbatim>\<open>_sector_middle_deg\<close> applies
  to a stored float, and \<^verbatim>\<open>convert_angle_to_sector\<close>, a function of the sector table
  (\<open>None\<close> where it returns false). All of them are parameters of the embedding.
\<close>

record backend =
  PROXIMITY_SECTORS_MAX :: nat
  get_ignore_area_count :: nat
  get_ignore_area :: "nat \<Rightarrow> (int \<times> int) option"
  get_next_ignore_start_or_end :: "nat \<Rightarrow> int \<Rightarrow> int"
  to_sector_middle :: "real \<Rightarrow> real"
  convert_angle_to_sector :: "nat \<Rightarrow> (nat \<Rightarrow> real) \<Rightarrow> (nat \<Rightarrow> int) \<Rightarrow> real \<Rightarrow> nat option"

definition distance_max :: real where "distance_max = 16.0"
definition distance_min :: real where "distance_min = 0.20"

text \<open>
  Modelled from the spec: \<^verbatim>\<open>wrap_360\<close> of \<^verbatim>\<open>AP_Math\<close> is not among the sources; the
  spec speaks of angles "wrapping at 360" degrees, that is the representative of the
  angle in the interval from 0 (included) to 360 (excluded).
\<close>

definition wrap_360 :: "real \<Rightarrow> real" where
  "wrap_360 x = x - 360 * of_int \<lfloor>x / 360\<rfloor>"

section \<open>Commands\<close>

definition reset_rplidar :: "uint32_t \<Rightarrow> lidar \<Rightarrow> lidar" where
  "reset_rplidar now s =
     (if \<not> uart s then s
      else s\<lparr>uart_tx := uart_tx s @ [RPLIDAR_PREAMBLE, RPLIDAR_CMD_RESET],
             resetted := True,
             last_reset_ms := now,
             rp_state := rp_resetted\<rparr>)"

definition set_scan_mode :: "uint32_t \<Rightarrow> lidar \<Rightarrow> lidar" where
  "set_scan_mode now s =
     (if \<not> uart s then s
      else s\<lparr>uart_tx := uart_tx s @ [RPLIDAR_PREAMBLE, RPLIDAR_CMD_SCAN],
             last_request_ms := now,
             rp_state := rp_responding\<rparr>)"

section \<open>Sector partitioning (\<^verbatim>\<open>init_sectors\<close>)\<close>

text \<open>The three-way choice of \<^verbatim>\<open>sector_size\<close> in the body of the \<^verbatim>\<open>while\<close> loop.
  \<^verbatim>\<open>degrees_to_fill / 2.0f\<close> is stored in a \<^verbatim>\<open>uint16_t\<close>: for the positive values
  of this branch the truncation is integer division by two.\<close>

definition sector_size :: "int \<Rightarrow> int" where
  "sector_size degrees_to_fill =
     (if degrees_to_fill \<ge> 90 then 45
      else if degrees_to_fill > 45 then degrees_to_fill div 2
      else degrees_to_fill)"

text \<open>The \<^verbatim>\<open>while\<close> loop; it returns the loop variable \<^verbatim>\<open>sector\<close> and the tables.\<close>

function fill_sectors :: "backend \<Rightarrow> int \<Rightarrow> int \<Rightarrow> nat \<Rightarrow> lidar \<Rightarrow> nat \<times> lidar" where
  "fill_sectors bk start_angle degrees_to_fill sector s =
     (if degrees_to_fill > 0 \<and> sector < PROXIMITY_SECTORS_MAX bk then
        fill_sectors bk
          (start_angle + sector_size degrees_to_fill)
          (degrees_to_fill - sector_size degrees_to_fill)
          (sector + 1)
          (s\<lparr>sector_middle_deg := (sector_middle_deg s)
                (sector := to_sector_middle bk
                   (wrap_360 (of_int start_angle + of_int (sector_size degrees_to_fill) / 2))),
             sector_width_deg := (sector_width_deg s)
                (sector := sector_size degrees_to_fill)\<rparr>)
      else (sector, s))"
  by pat_completeness auto
termination
  by (relation "measure (\<lambda>(bk, a, d, sector, s). PROXIMITY_SECTORS_MAX bk - sector)") auto

text \<open>One round of the \<^verbatim>\<open>for\<close> loop over the ignore areas.\<close>

definition init_sectors_area :: "backend \<Rightarrow> nat \<times> lidar \<Rightarrow> nat \<Rightarrow> nat \<times> lidar" where
  "init_sectors_area bk acc i =
     (case get_ignore_area bk i of
        None \<Rightarrow> acc
      | Some (ign_area_angle, ign_area_width) \<Rightarrow>
          (let start_angle = get_next_ignore_start_or_end bk 1 ign_area_angle;
               end_angle = get_next_ignore_start_or_end bk 0 start_angle;
               degrees_to_fill = \<lfloor>wrap_360 (of_int (end_angle - start_angle))\<rfloor>
           in fill_sectors bk start_angle degrees_to_fill (fst acc) (snd acc)))"

definition init_sectors :: "backend \<Rightarrow> lidar \<Rightarrow> lidar" where
  "init_sectors bk s =
     (if get_ignore_area_count bk = 0 then s\<lparr>sector_initialised := True\<rparr>
      else
        (let r = foldl (init_sectors_area bk) (0, s) [0 ..< get_ignore_area_count bk]
         in (snd r)\<lparr>num_sectors := fst r,
                    boundary_log := boundary_log (snd r) @ [init_boundary],
                    sector_initialised := True\<rparr>))"

definition initialise :: "backend \<Rightarrow> uint32_t \<Rightarrow> lidar \<Rightarrow> bool \<times> lidar" where
  "initialise bk now s =
     (if \<not> sector_initialised s then (False, init_sectors bk s)
      else if \<not> initialised s then (True, reset_rplidar now s)
      else (True, s))"

section \<open>Descriptor classification (\<^verbatim>\<open>parse_response_descriptor\<close>)\<close>

definition scan_descriptor :: "uint8_t list \<Rightarrow> bool" where
  "scan_descriptor d \<longleftrightarrow>
     d ! 2 = 0x05 \<and> d ! 3 = 0x00 \<and> d ! 4 = 0x00 \<and> d ! 5 = 0x40 \<and> d ! 6 = 0x81"

definition health_descriptor :: "uint8_t list \<Rightarrow> bool" where
  "health_descriptor d \<longleftrightarrow>
     d ! 2 = 0x03 \<and> d ! 3 = 0x00 \<and> d ! 4 = 0x00 \<and> d ! 5 = 0x00 \<and> d ! 6 = 0x06"

definition parse_response_descriptor :: "uint32_t \<Rightarrow> lidar \<Rightarrow> lidar" where
  "parse_response_descriptor now s =
     (if descriptor s ! 0 = RPLIDAR_PREAMBLE \<and> descriptor s ! 1 = 0x5A then
        (let s1 = (if scan_descriptor (descriptor s)
                   then s\<lparr>payload_length := 5,
                          response_type := ResponseType_SCAN,
                          last_distance_received_ms := now,
                          rp_state := rp_measurements\<rparr>
                   else s)
         in if health_descriptor (descriptor s1)
            then s1\<lparr>payload_length := 3,
                    response_type := ResponseType_Health,
                    last_distance_received_ms := now,
                    rp_state := rp_health\<rparr>
            else s1)
      else s\<lparr>rp_state := rp_unknown\<rparr>)"

section \<open>Payload decoding (\<^verbatim>\<open>parse_response_data\<close>)\<close>

text \<open>
  The bit-fields of \<^verbatim>\<open>struct PACKED _sensor_scan\<close>, read from the bytes of the union.
  The struct is packed into 5 bytes (the \<^verbatim>\<open>static_assert\<close> in
  \<^verbatim>\<open>parse_response_descriptor\<close>), its fields allocated in declaration order from the
  least significant bit of the first byte, as the compilers of the little-endian targets
  of this code do: bit 0 and 1 of byte 0 are \<^verbatim>\<open>startbit\<close> and \<^verbatim>\<open>not_startbit\<close>, the
  other six \<^verbatim>\<open>quality\<close>; bit 0 of byte 1 is \<^verbatim>\<open>checkbit\<close>; the 15 bits above it, through
  byte 2, are \<^verbatim>\<open>angle_q6\<close>; bytes 3 and 4 are \<^verbatim>\<open>distance_q2\<close>, low byte first.
\<close>

definition startbit :: "uint8_t list \<Rightarrow> uint8_t" where
  "startbit p = (p ! 0) AND 1"

definition not_startbit :: "uint8_t list \<Rightarrow> uint8_t" where
  "not_startbit p = drop_bit 1 (p ! 0) AND 1"

definition quality :: "uint8_t list \<Rightarrow> uint8_t" where
  "quality p = drop_bit 2 (p ! 0)"

definition checkbit :: "uint8_t list \<Rightarrow> uint8_t" where
  "checkbit p = (p ! 1) AND 1"

definition angle_q6 :: "uint8_t list \<Rightarrow> uint16_t" where
  "angle_q6 p = ucast (drop_bit 1 (p ! 1)) OR push_bit 7 (ucast (p ! 2))"

definition distance_q2 :: "uint8_t list \<Rightarrow> uint16_t" where
  "distance_q2 p = ucast (p ! 3) OR push_bit 8 (ucast (p ! 4))"

text \<open>The test \<^verbatim>\<open>(startbit == !not_startbit) && checkbit\<close>.\<close>

definition scan_valid :: "uint8_t list \<Rightarrow> bool" where
  "scan_valid p \<longleftrightarrow>
     (startbit p = (if not_startbit p = 0 then 1 else 0)) \<and> checkbit p \<noteq> 0"

text \<open>The locals \<^verbatim>\<open>angle_deg\<close> and \<^verbatim>\<open>distance_m\<close> of a payload that passed the test.\<close>

definition decode_scan :: "uint8_t list \<Rightarrow> (real \<times> real) option" where
  "decode_scan p =
     (if scan_valid p
      then Some (real (unat (angle_q6 p)) / 64, real (unat (distance_q2 p)) / 4000)
      else None)"

text \<open>
  The end of the valid branch, from the assignment of \<^verbatim>\<open>_last_distance_received_ms\<close> to
  the closing brace of \<^verbatim>\<open>if (convert_angle_to_sector(...))\<close>: the sector aggregation.
\<close>

definition sector_of :: "backend \<Rightarrow> lidar \<Rightarrow> real \<Rightarrow> nat option" where
  "sector_of bk s angle_deg =
     convert_angle_to_sector bk (num_sectors s) (sector_middle_deg s) (sector_width_deg s)
       angle_deg"

definition parse_scan_sample :: "backend \<Rightarrow> uint32_t \<Rightarrow> real \<times> real \<Rightarrow> lidar \<Rightarrow> lidar" where
  "parse_scan_sample bk now sample s0 =
     (let angle_deg = fst sample;
          distance_m = snd sample;
          s = s0\<lparr>last_distance_received_ms := now\<rparr>
      in case sector_of bk s angle_deg of
           None \<Rightarrow> s
         | Some sector \<Rightarrow>
             if distance_m > distance_min then
               if last_sector s = sector then
                 if distance_m_last s > distance_m
                 then s\<lparr>distance_m_last := distance_m, angle_deg_last := angle_deg\<rparr>
                 else s
               else
                 s\<lparr>angle := (angle s)(last_sector s := angle_deg_last s),
                   distance := (distance s)(last_sector s := distance_m_last s),
                   distance_valid := (distance_valid s)(last_sector s := True),
                   boundary_log := boundary_log s @ [update_boundary_for_sector (last_sector s)],
                   last_sector := sector,
                   distance_m_last := distance_m,
                   angle_deg_last := angle_deg\<rparr>
             else s\<lparr>distance_valid := (distance_valid s)(sector := False)\<rparr>)"

definition parse_response_data :: "backend \<Rightarrow> uint32_t \<Rightarrow> lidar \<Rightarrow> lidar" where
  "parse_response_data bk now s =
     (case response_type s of
        ResponseType_SCAN \<Rightarrow>
          (case decode_scan (payload s) of
             Some sample \<Rightarrow> parse_scan_sample bk now sample s
           | None \<Rightarrow> s\<lparr>sync_error := sync_error s + 1\<rparr>)
      | ResponseType_Health \<Rightarrow> (if payload s ! 0 = 3 then s else s)
      | _ \<Rightarrow> s)"

section \<open>The frame decoder (\<^verbatim>\<open>get_readings\<close>)\<close>

definition case_rp_resetted :: "uint8_t \<Rightarrow> uint32_t \<Rightarrow> lidar \<Rightarrow> lidar" where
  "case_rp_resetted c now s =
     (if (c = 0x52 \<or> information_data s) \<and> byte_count s < 62 then
        s\<lparr>information_data := True,
          rp_systeminfo := (rp_systeminfo s)[unat (byte_count s) := c],
          byte_count := byte_count s + 1\<rparr>
      else if information_data s then
        set_scan_mode now (s\<lparr>information_data := False, byte_count := 0\<rparr>)
      else if cnt s > 5 then s\<lparr>rp_state := rp_unknown, cnt := 0\<rparr>
      else s\<lparr>cnt := cnt s + 1\<rparr>)"

definition case_rp_responding :: "uint8_t \<Rightarrow> uint32_t \<Rightarrow> lidar \<Rightarrow> lidar" where
  "case_rp_responding c now s =
     (if c = RPLIDAR_PREAMBLE \<or> descriptor_data s then
        (let s1 = s\<lparr>descriptor_data := True,
                    descriptor := (descriptor s)[unat (byte_count s) := c],
                    byte_count := byte_count s + 1\<rparr>
         in if byte_count s1 = 7
            then (parse_response_descriptor now
                    (s1\<lparr>response_type := ResponseType_Descriptor\<rparr>))\<lparr>byte_count := 0\<rparr>
            else s1)
      else s\<lparr>rp_state := rp_unknown\<rparr>)"

definition case_rp_measurements :: "backend \<Rightarrow> uint8_t \<Rightarrow> uint32_t \<Rightarrow> lidar \<Rightarrow> lidar" where
  "case_rp_measurements bk c now s =
     (if sync_error s \<noteq> 0 \<and> c AND 0x03 \<noteq> 0x01 then
        (if now - last_distance_received_ms s > RESYNC_TIMEOUT
         then reset_rplidar now s else s)
      else
        (let s0 = (if sync_error s \<noteq> 0 then s\<lparr>sync_error := 0\<rparr> else s);
             s1 = s0\<lparr>payload := (payload s0)[unat (byte_count s0) := c],
                     byte_count := byte_count s0 + 1\<rparr>
         in if unat (byte_count s1) = unat (payload_length s1)
            then (parse_response_data bk now s1)\<lparr>byte_count := 0\<rparr>
            else s1))"

definition case_rp_unknown :: "uint8_t \<Rightarrow> uint32_t \<Rightarrow> lidar \<Rightarrow> lidar" where
  "case_rp_unknown c now s =
     (if c = RPLIDAR_PREAMBLE then case_rp_responding c now (s\<lparr>rp_state := rp_responding\<rparr>)
      else
        (let s1 = s\<lparr>cnt := cnt s + 1\<rparr>
         in if cnt s1 > 10
            then (reset_rplidar now s1)\<lparr>rp_state := rp_resetted, cnt := 0\<rparr>
            else s1))"

text \<open>The body of the \<^verbatim>\<open>while\<close> loop: one byte \<open>c\<close>, read while the clock shows \<open>now\<close>.\<close>

definition get_readings_byte :: "backend \<Rightarrow> lidar \<Rightarrow> uint8_t \<times> uint32_t \<Rightarrow> lidar" where
  "get_readings_byte bk s cn =
     (case rp_state s of
        rp_resetted \<Rightarrow> case_rp_resetted (fst cn) (snd cn) s
      | rp_responding \<Rightarrow> case_rp_responding (fst cn) (snd cn) s
      | rp_measurements \<Rightarrow> case_rp_measurements bk (fst cn) (snd cn) s
      | rp_health \<Rightarrow> s
      | rp_unknown \<Rightarrow> case_rp_unknown (fst cn) (snd cn) s)"

text \<open>\<open>rx\<close> holds the \<^verbatim>\<open>_uart->available()\<close> bytes, each with its clock reading.\<close>

definition get_readings :: "backend \<Rightarrow> (uint8_t \<times> uint32_t) list \<Rightarrow> lidar \<Rightarrow> lidar" where
  "get_readings bk rx s = (if \<not> uart s then s else foldl (get_readings_byte bk) s rx)"

section \<open>The cyclic entry point (\<^verbatim>\<open>update\<close>)\<close>

text \<open>\<open>t_init\<close> is the clock during \<^verbatim>\<open>initialise\<close>, \<open>t_check\<close> at the timeout test.\<close>

definition update ::
  "backend \<Rightarrow> uint32_t \<Rightarrow> (uint8_t \<times> uint32_t) list \<Rightarrow> uint32_t \<Rightarrow> lidar \<Rightarrow> lidar" where
  "update bk t_init rx t_check s =
     (if \<not> uart s then s
      else
        (let s1 = (if \<not> initialised s
                   then (snd (initialise bk t_init s))
                          \<lparr>initialised := fst (initialise bk t_init s)\<rparr>
                   else s);
             s2 = (if initialised s1 then get_readings bk rx s1 else s1)
         in if last_distance_received_ms s2 = 0
               \<or> t_check - last_distance_received_ms s2 > COMM_ACTIVITY_TIMEOUT_MS
            then s2\<lparr>status := Some Proximity_NoData\<rparr>
            else s2\<lparr>status := Some Proximity_Good\<rparr>))"

section \<open>States the decoder can be in\<close>

text \<open>
  \<^verbatim>\<open>get_readings\<close> first runs after \<^verbatim>\<open>initialise\<close> has called \<^verbatim>\<open>reset_rplidar\<close>, which
  leaves \<^verbatim>\<open>_rp_state\<close> at \<^verbatim>\<open>rp_resetted\<close>; the constructor has set \<^verbatim>\<open>_sync_error\<close> to 0
  and nothing before has touched it. From there the driver moves by received bytes and
  by calls of \<^verbatim>\<open>update\<close>. The start rule constrains nothing else, so it also covers
  whatever the members that the constructor leaves alone hold.
\<close>

inductive reachable :: "backend \<Rightarrow> lidar \<Rightarrow> bool" for bk :: backend where
  after_reset: "rp_state s = rp_resetted \<Longrightarrow> sync_error s = 0 \<Longrightarrow> length (payload s) = 5
                 \<Longrightarrow> reachable bk s"
| next_byte: "reachable bk s \<Longrightarrow> reachable bk (get_readings_byte bk s cn)"
| next_update: "reachable bk s \<Longrightarrow> reachable bk (update bk t_init rx t_check s)"

text \<open>The invariant behind the statements on reachable states.\<close>

definition decoder_inv :: "lidar \<Rightarrow> bool" where
  "decoder_inv s \<longleftrightarrow>
     (sync_error s = 0 \<or> sync_error s = 1) \<and> length (payload s) = 5 \<and>
     (rp_state s = rp_measurements \<longrightarrow>
        payload_length s = 5 \<and> (sync_error s \<noteq> 0 \<longrightarrow> byte_count s = 0))"

section \<open>Runs of samples and events of a run\<close>

text \<open>
  Successive valid scan payloads: the sector aggregation applied to each decoded sample
  \<open>(angle_deg, distance_m)\<close> in turn, each with the clock reading of its payload.
\<close>

definition parse_scan_samples ::
  "backend \<Rightarrow> (uint32_t \<times> real \<times> real) list \<Rightarrow> lidar \<Rightarrow> lidar" where
  "parse_scan_samples bk txs s =
     foldl (\<lambda>s tx. parse_scan_sample bk (fst tx) (snd tx) s) s txs"

text \<open>
  The byte \<open>c\<close>, received in state \<open>s\<close>, completes a scan payload that
  \<^verbatim>\<open>parse_response_data\<close> accepts: a successful measurement decode. The conditions are
  those on the path through \<^verbatim>\<open>case rp_measurements\<close> into the valid branch.
\<close>

definition measurement_complete :: "lidar \<Rightarrow> uint8_t \<Rightarrow> bool" where
  "measurement_complete s c \<longleftrightarrow>
     rp_state s = rp_measurements
     \<and> \<not> (sync_error s \<noteq> 0 \<and> c AND 0x03 \<noteq> 0x01)
     \<and> unat (byte_count s + 1) = unat (payload_length s)
     \<and> response_type s = ResponseType_SCAN
     \<and> scan_valid ((payload s)[unat (byte_count s) := c])"

text \<open>
  The byte \<open>c\<close>, received in state \<open>s\<close>, completes a descriptor with the two header
  bytes and the tail of a scan or of a health response: the path through
  \<^verbatim>\<open>case rp_responding\<close> (entered directly, or from \<^verbatim>\<open>rp_unknown\<close> by the \<^verbatim>\<open>goto\<close>)
  into one of the two inner branches of \<^verbatim>\<open>parse_response_descriptor\<close>.
\<close>

definition descriptor_recognised :: "lidar \<Rightarrow> uint8_t \<Rightarrow> bool" where
  "descriptor_recognised s c \<longleftrightarrow>
     (rp_state s = rp_responding \<or> rp_state s = rp_unknown \<and> c = RPLIDAR_PREAMBLE)
     \<and> (c = RPLIDAR_PREAMBLE \<or> descriptor_data s)
     \<and> byte_count s + 1 = 7
     \<and> (descriptor s)[unat (byte_count s) := c] ! 0 = RPLIDAR_PREAMBLE
     \<and> (descriptor s)[unat (byte_count s) := c] ! 1 = 0x5A
     \<and> (scan_descriptor ((descriptor s)[unat (byte_count s) := c])
          \<or> health_descriptor ((descriptor s)[unat (byte_count s) := c]))"

text \<open>The number of successful measurement decodes while \<open>rx\<close> is read from \<open>s\<close> on.\<close>

fun measurement_completes :: "backend \<Rightarrow> lidar \<Rightarrow> (uint8_t \<times> uint32_t) list \<Rightarrow> nat" where
  "measurement_completes bk s [] = 0"
| "measurement_completes bk s (cn # rx) =
     (if measurement_complete s (fst cn) then 1 else 0)
       + measurement_completes bk (get_readings_byte bk s cn) rx"

text \<open>The same count for one call of \<^verbatim>\<open>update\<close>, which reads only once initialised.\<close>

definition update_measurement_completes ::
  "backend \<Rightarrow> uint32_t \<Rightarrow> (uint8_t \<times> uint32_t) list \<Rightarrow> lidar \<Rightarrow> nat" where
  "update_measurement_completes bk t_init rx s =
     (if \<not> uart s then 0
      else
        (let s1 = (if \<not> initialised s
                   then (snd (initialise bk t_init s))
                          \<lparr>initialised := fst (initialise bk t_init s)\<rparr>
                   else s)
         in if initialised s1 then measurement_completes bk s1 rx else 0))"

section \<open>The descriptor templates of the protocol\<close>

text \<open>The two 7-byte response descriptors, as the spec lists them.\<close>

definition scan_template :: "uint8_t list" where
  "scan_template = [0xA5, 0x5A, 0x05, 0x00, 0x00, 0x40, 0x81]"

definition health_template :: "uint8_t list" where
  "health_template = [0xA5, 0x5A, 0x03, 0x00, 0x00, 0x00, 0x06]"

section \<open>Concrete instances\<close>

text \<open>
  An instance of the base-class parameters and a few concrete driver states, on which
  the theorems below are evaluated. \<open>power_on\<close> is the object after construction with
  every member the constructor does not set at zero, and the table of eight 45-degree
  sectors; the example \<^verbatim>\<open>convert_angle_to_sector\<close> distinguishes three sectors.
\<close>

definition example_backend :: backend where
  "example_backend =
     \<lparr>PROXIMITY_SECTORS_MAX = 8,
      get_ignore_area_count = 0,
      get_ignore_area = (\<lambda>i. None),
      get_next_ignore_start_or_end = (\<lambda>e a. a),
      to_sector_middle = (\<lambda>x. x),
      convert_angle_to_sector = (\<lambda>n mid wid a.
         if a > 360 \<or> a < -180 then None
         else if a < 45 then Some 0 else if a < 90 then Some 1 else Some 2)\<rparr>"

definition power_on :: lidar where
  "power_on =
     \<lparr>uart = True, uart_tx = [],
      descriptor = [0, 0, 0, 0, 0, 0, 0],
      rp_systeminfo = replicate 63 0,
      descriptor_data = False, information_data = False, resetted = False,
      initialised = False, sector_initialised = False,
      payload_length = 0, cnt = 0, sync_error = 0, byte_count = 0,
      response_type = ResponseType_Descriptor, rp_state = rp_unknown,
      last_sector = 0, last_request_ms = 0, last_distance_received_ms = 0,
      last_reset_ms = 0, angle_deg_last = 0, distance_m_last = 0,
      payload = [0, 0, 0, 0, 0],
      angle = (\<lambda>i. 0), distance = (\<lambda>i. 0), distance_valid = (\<lambda>i. False),
      num_sectors = 8,
      sector_middle_deg = (\<lambda>i. 45 * real i),
      sector_width_deg = (\<lambda>i. 45),
      status = None, boundary_log = []\<rparr>"

text \<open>Seven bytes that are not device information, then the scan descriptor.\<close>

definition startup_rx :: "(uint8_t \<times> uint32_t) list" where
  "startup_rx =
     [(0, 20), (0, 20), (0, 20), (0, 20), (0, 20), (0, 20), (0, 20),
      (0xA5, 150), (0x5A, 150), (0x05, 150), (0x00, 150), (0x00, 150), (0x40, 150), (0x81, 150)]"

text \<open>A scan payload whose two start bits are both set.\<close>

definition bad_payload_rx :: "(uint8_t \<times> uint32_t) list" where
  "bad_payload_rx = [(0x03, 160), (0x01, 160), (0x05, 160), (0x40, 160), (0x1F, 160)]"

text \<open>
  The driver after a first \<^verbatim>\<open>update\<close> (which only initialises the sectors), then after the
  reset of the second \<^verbatim>\<open>update\<close> at 10 ms followed by \<open>startup_rx\<close>, and after
  \<open>bad_payload_rx\<close>.
\<close>

definition idle :: lidar where
  "idle = power_on\<lparr>sector_initialised := True, status := Some Proximity_NoData\<rparr>"

definition measuring :: lidar where
  "measuring =
     idle\<lparr>initialised := True,
       uart_tx := [0xA5, 0x40], resetted := True, last_reset_ms := 10,
       rp_state := rp_measurements, descriptor_data := True,
       descriptor := [0xA5, 0x5A, 0x05, 0x00, 0x00, 0x40, 0x81],
       payload_length := 5, response_type := ResponseType_SCAN,
       last_distance_received_ms := 150\<rparr>"

definition sync_lost :: lidar where
  "sync_lost = measuring\<lparr>payload := [0x03, 0x01, 0x05, 0x40, 0x1F], sync_error := 1\<rparr>"

text \<open>
  The driver after the two calls of \<^verbatim>\<open>update\<close> that bring it from power-on into
  \<^verbatim>\<open>rp_measurements\<close>, and the first scan payloads it then receives: 10 degrees at 3 m
  (the first of the revolution) and 20 degrees at 2 m, then 50 degrees at 4 m.
\<close>

definition scanning :: lidar where
  "scanning =
     update example_backend 10 startup_rx 250 (update example_backend 0 [] 0 power_on)"

definition first_dwell_rx :: "(uint8_t \<times> uint32_t) list" where
  "first_dwell_rx =
     [(0x3D, 300), (0x01, 300), (0x05, 300), (0xE0, 300), (0x2E, 300),
      (0x3E, 301), (0x01, 301), (0x0A, 301), (0x40, 301), (0x1F, 301)]"

definition next_sector_rx :: "(uint8_t \<times> uint32_t) list" where
  "next_sector_rx = [(0x3E, 302), (0x01, 302), (0x19, 302), (0x80, 302), (0x3E, 302)]"

text \<open>
  One ignore area of 30 degrees centred at 180: it ends at 195 and starts at 165.
\<close>

definition blind_spot_backend :: backend where
  "blind_spot_backend =
     example_backend\<lparr>get_ignore_area_count := 1,
       get_ignore_area := (\<lambda>i. if i = 0 then Some (180, 30) else None),
       get_next_ignore_start_or_end := (\<lambda>start_or_end a. if start_or_end = 1 then 195 else 165)\<rparr>"

section \<open>Word arithmetic of the bit-fields\<close>

lemma unat_inc_uint8: "x \<noteq> 255 \<Longrightarrow> unat (x + 1 :: 8 word) = unat x + 1"
proof -
  assume "x \<noteq> 255"
  then have "unat x \<noteq> unat (255 :: 8 word)" by (simp only: word_unat_eq_iff not_False_eq_True)
  moreover have "unat x < 2 ^ 8" using unsigned_less [of x, where 'a=nat] by simp
  ultimately have "unat x + unat (1 :: 8 word) < 2 ^ LENGTH(8)" by simp
  then show ?thesis by (simp add: unat_add_lem [THEN iffD1])
qed

lemma unat_disjoint_or:
  fixes x y :: "16 word"
  assumes "x AND y = 0" and "unat x = a" and "unat y = b" and "a + b < 65536"
  shows "unat (x OR y) = a + b"
proof -
  have "x OR y = x + y"
    using assms(1) word_plus_and_or [of x y] by simp
  moreover have "unat x + unat y < 2 ^ LENGTH(16)"
    using assms by simp
  ultimately show ?thesis
    using assms(2,3) by (simp add: unat_add_lem [THEN iffD1])
qed

lemma unat_ucast_byte: "unat (ucast (c :: 8 word) :: 16 word) = unat c"
proof -
  have "unat c < 256" using unsigned_less [of c, where 'a=nat] by simp
  then show ?thesis by (simp add: unsigned_ucast_eq take_bit_nat_eq_self)
qed

lemma unat_ucast_byte_times:
  assumes "unat (k :: 16 word) \<le> 256"
  shows "unat ((ucast (c :: 8 word) :: 16 word) * k) = unat c * unat k"
proof -
  have "unat c < 256" using unsigned_less [of c, where 'a=nat] by simp
  then have "unat c * unat k \<le> 255 * 256"
    using assms by (intro mult_le_mono) simp_all
  then have "unat (ucast c :: 16 word) * unat k < 2 ^ LENGTH(16)"
    by (simp add: unat_ucast_byte)
  then have "unat ((ucast c :: 16 word) * k) = unat (ucast c :: 16 word) * unat k"
    by (rule unat_mult_lem [THEN iffD1])
  then show ?thesis by (simp add: unat_ucast_byte)
qed

lemma unat_angle_bits:
  "unat (ucast (drop_bit 1 (b::8 word)) OR push_bit 7 (ucast (c::8 word)) :: 16 word)
     = unat b div 2 + 128 * unat c"
proof (rule unat_disjoint_or)
  show "(ucast (drop_bit 1 b) :: 16 word) AND push_bit 7 (ucast c) = 0"
    by (rule bit_word_eqI) (auto simp add: bit_simps dest: bit_imp_le_length)
  show "unat (ucast (drop_bit 1 b) :: 16 word) = unat b div 2"
    by (simp add: unat_ucast_byte drop_bit_eq_div unat_div)
  show "unat (push_bit 7 (ucast c) :: 16 word) = 128 * unat c"
    using unat_ucast_byte_times [of 128 c] by (simp add: push_bit_eq_mult)
  show "unat b div 2 + 128 * unat c < 65536"
    using unsigned_less [of c, where 'a=nat] unsigned_less [of b, where 'a=nat] by simp
qed

lemma unat_distance_bits:
  "unat (ucast (b::8 word) OR push_bit 8 (ucast (c::8 word)) :: 16 word)
     = unat b + 256 * unat c"
proof (rule unat_disjoint_or)
  show "(ucast b :: 16 word) AND push_bit 8 (ucast c) = 0"
    by (rule bit_word_eqI) (auto simp add: bit_simps dest: bit_imp_le_length)
  show "unat (ucast b :: 16 word) = unat b"
    by (rule unat_ucast_byte)
  show "unat (push_bit 8 (ucast c) :: 16 word) = 256 * unat c"
    using unat_ucast_byte_times [of 256 c] by (simp add: push_bit_eq_mult)
  show "unat b + 256 * unat c < 65536"
    using unsigned_less [of c, where 'a=nat] unsigned_less [of b, where 'a=nat] by simp
qed

lemma unat_angle_q6: "unat (angle_q6 p) = unat (p ! 1) div 2 + 128 * unat (p ! 2)"
  unfolding angle_q6_def by (rule unat_angle_bits)

lemma unat_distance_q2: "unat (distance_q2 p) = unat (p ! 3) + 256 * unat (p ! 4)"
  unfolding distance_q2_def by (rule unat_distance_bits)

section \<open>What each step leaves alone\<close>

lemma parse_scan_sample_fields:
  "rp_state (parse_scan_sample bk now sample s) = rp_state s"
  "sync_error (parse_scan_sample bk now sample s) = sync_error s"
  "payload (parse_scan_sample bk now sample s) = payload s"
  "payload_length (parse_scan_sample bk now sample s) = payload_length s"
  "byte_count (parse_scan_sample bk now sample s) = byte_count s"
  by (simp_all add: parse_scan_sample_def Let_def split: option.split)

lemma parse_response_data_fields:
  "rp_state (parse_response_data bk now s) = rp_state s"
  "payload (parse_response_data bk now s) = payload s"
  "payload_length (parse_response_data bk now s) = payload_length s"
  "byte_count (parse_response_data bk now s) = byte_count s"
  by (simp_all add: parse_response_data_def parse_scan_sample_fields
        split: ResponseType.split option.split)

lemma parse_response_data_sync_error:
  "sync_error (parse_response_data bk now s) =
     (if response_type s = ResponseType_SCAN \<and> \<not> scan_valid (payload s)
      then sync_error s + 1 else sync_error s)"
  by (simp add: parse_response_data_def parse_scan_sample_fields decode_scan_def
        split: ResponseType.split)

lemma parse_response_descriptor_fields:
  "sync_error (parse_response_descriptor now s) = sync_error s"
  "payload (parse_response_descriptor now s) = payload s"
  by (simp_all add: parse_response_descriptor_def Let_def)

lemma parse_response_descriptor_measurements:
  "rp_state (parse_response_descriptor now s) = rp_measurements \<Longrightarrow>
     rp_state s = rp_measurements \<or> payload_length (parse_response_descriptor now s) = 5"
  by (simp add: parse_response_descriptor_def Let_def split: if_splits)

lemma parse_response_descriptor_length:
  "rp_state s \<noteq> rp_measurements \<Longrightarrow>
   rp_state (parse_response_descriptor now s) = rp_measurements \<Longrightarrow>
     payload_length (parse_response_descriptor now s) = 5"
  using parse_response_descriptor_measurements by blast

lemma inv_resetted:
  "decoder_inv s \<Longrightarrow> rp_state s = rp_resetted \<Longrightarrow> decoder_inv (case_rp_resetted c now s)"
  by (simp add: decoder_inv_def case_rp_resetted_def set_scan_mode_def)

lemma inv_responding:
  assumes "decoder_inv s" and "rp_state s = rp_responding"
  shows "decoder_inv (case_rp_responding c now s)"
  using assms
  by (auto simp add: decoder_inv_def case_rp_responding_def Let_def
        parse_response_descriptor_fields
      intro!: parse_response_descriptor_length)

lemma inv_unknown:
  assumes "decoder_inv s" and "rp_state s = rp_unknown"
  shows "decoder_inv (case_rp_unknown c now s)"
proof (cases "c = RPLIDAR_PREAMBLE")
  case True
  have "decoder_inv (s\<lparr>rp_state := rp_responding\<rparr>)"
    using assms by (simp add: decoder_inv_def)
  then have "decoder_inv (case_rp_responding c now (s\<lparr>rp_state := rp_responding\<rparr>))"
    by (rule inv_responding) simp
  then show ?thesis using True by (simp add: case_rp_unknown_def)
next
  case False
  then show ?thesis
    using assms by (simp add: decoder_inv_def case_rp_unknown_def Let_def reset_rplidar_def)
qed

lemma inv_measurements:
  assumes "decoder_inv s" and "rp_state s = rp_measurements"
  shows "decoder_inv (case_rp_measurements bk c now s)"
proof (cases "sync_error s \<noteq> 0 \<and> c AND 0x03 \<noteq> 0x01")
  case True
  then show ?thesis
    using assms by (simp add: decoder_inv_def case_rp_measurements_def reset_rplidar_def)
next
  case False
  then show ?thesis
    using assms
    by (auto simp add: decoder_inv_def case_rp_measurements_def Let_def
          parse_response_data_fields parse_response_data_sync_error)
qed

lemma inv_byte: "decoder_inv s \<Longrightarrow> decoder_inv (get_readings_byte bk s cn)"
  by (cases "rp_state s")
     (simp_all add: get_readings_byte_def inv_unknown inv_resetted inv_responding
        inv_measurements)

lemma inv_get_readings: "decoder_inv s \<Longrightarrow> decoder_inv (get_readings bk rx s)"
proof -
  have "decoder_inv s \<Longrightarrow> decoder_inv (foldl (get_readings_byte bk) s rx)"
    by (induction rx arbitrary: s) (simp_all add: inv_byte)
  then show "decoder_inv s \<Longrightarrow> decoder_inv (get_readings bk rx s)"
    by (simp add: get_readings_def)
qed


declare fill_sectors.simps [simp del]

lemma fill_sectors_step:
  "0 < d \<Longrightarrow> n < PROXIMITY_SECTORS_MAX bk \<Longrightarrow>
     fill_sectors bk a d n s =
       fill_sectors bk (a + sector_size d) (d - sector_size d) (n + 1)
         (s\<lparr>sector_middle_deg := (sector_middle_deg s)
               (n := to_sector_middle bk (wrap_360 (of_int a + of_int (sector_size d) / 2))),
            sector_width_deg := (sector_width_deg s)(n := sector_size d)\<rparr>)"
  by (subst fill_sectors.simps) simp

lemma fill_sectors_stop:
  "\<not> (0 < d \<and> n < PROXIMITY_SECTORS_MAX bk) \<Longrightarrow> fill_sectors bk a d n s = (n, s)"
  by (subst fill_sectors.simps) (rule if_not_P)

lemma fill_sectors_decoder:
  "sync_error (snd (fill_sectors bk a d n s)) = sync_error s \<and>
   payload (snd (fill_sectors bk a d n s)) = payload s \<and>
   rp_state (snd (fill_sectors bk a d n s)) = rp_state s \<and>
   payload_length (snd (fill_sectors bk a d n s)) = payload_length s \<and>
   byte_count (snd (fill_sectors bk a d n s)) = byte_count s"
proof (induction bk a d n s rule: fill_sectors.induct)
  case (1 bk start_angle degrees_to_fill sector s)
  show ?case
  proof (cases "degrees_to_fill > 0 \<and> sector < PROXIMITY_SECTORS_MAX bk")
    case True
    then show ?thesis
      using "1.IH" by (simp add: fill_sectors_step)
  next
    case False
    then show ?thesis by (simp only: fill_sectors_stop snd_conv simp_thms)
  qed
qed

lemma inv_fill_sectors:
  "decoder_inv (snd (fill_sectors bk a d n s)) = decoder_inv s"
  by (simp add: decoder_inv_def fill_sectors_decoder)

lemma inv_init_sectors_area:
  "decoder_inv (snd acc) \<Longrightarrow> decoder_inv (snd (init_sectors_area bk acc i))"
  by (simp add: init_sectors_area_def Let_def inv_fill_sectors split: option.split prod.split)

lemma inv_init_sectors_fold:
  "decoder_inv (snd acc) \<Longrightarrow> decoder_inv (snd (foldl (init_sectors_area bk) acc is))"
  by (induction "is" arbitrary: acc) (simp_all add: inv_init_sectors_area)

lemma inv_init_sectors: "decoder_inv s \<Longrightarrow> decoder_inv (init_sectors bk s)"
proof -
  assume a: "decoder_inv s"
  have "decoder_inv (snd (foldl (init_sectors_area bk) (0, s) [0 ..< get_ignore_area_count bk]))"
    by (rule inv_init_sectors_fold) (simp add: a)
  then show ?thesis
    using a by (simp add: init_sectors_def Let_def decoder_inv_def)
qed

lemma inv_initialise: "decoder_inv s \<Longrightarrow> decoder_inv (snd (initialise bk now s))"
  using inv_init_sectors [of s bk]
  by (simp add: initialise_def reset_rplidar_def decoder_inv_def)

lemma inv_field_updates:
  "decoder_inv (s\<lparr>initialised := b\<rparr>) = decoder_inv s"
  "decoder_inv (s\<lparr>status := st\<rparr>) = decoder_inv s"
  by (simp_all add: decoder_inv_def)

lemma inv_update: "decoder_inv s \<Longrightarrow> decoder_inv (update bk t_init rx t_check s)"
  by (simp add: update_def Let_def inv_field_updates inv_initialise inv_get_readings)

lemma reachable_inv: "reachable bk s \<Longrightarrow> decoder_inv s"
proof (induction rule: reachable.induct)
  case (after_reset s)
  then show ?case by (simp add: decoder_inv_def)
next
  case (next_byte s cn)
  from next_byte.IH show ?case by (rule inv_byte)
next
  case (next_update s t_init rx t_check)
  from next_update.IH show ?case by (rule inv_update)
qed

lemma reachable_foldl:
  "reachable bk s \<Longrightarrow> reachable bk (foldl (get_readings_byte bk) s rx)"
  by (induction rx arbitrary: s) (simp_all add: next_byte)

lemmas decoder_defs =
  get_readings_byte_def case_rp_unknown_def case_rp_resetted_def case_rp_responding_def
  case_rp_measurements_def set_scan_mode_def reset_rplidar_def parse_response_descriptor_def
  scan_descriptor_def health_descriptor_def RPLIDAR_PREAMBLE_def RPLIDAR_CMD_RESET_def
  RPLIDAR_CMD_SCAN_def RESYNC_TIMEOUT_def Let_def


lemma startup_run:
  "foldl (get_readings_byte example_backend) ((reset_rplidar 10 idle)\<lparr>initialised := True\<rparr>)
     startup_rx = measuring"
  by (simp add: startup_rx_def power_on_def idle_def measuring_def decoder_defs)

lemma sync_lost_run:
  "foldl (get_readings_byte example_backend) measuring bad_payload_rx = sync_lost"
  by (simp add: bad_payload_rx_def power_on_def idle_def measuring_def sync_lost_def
        get_readings_byte_def
        case_rp_measurements_def Let_def parse_response_data_def decode_scan_def
        scan_valid_def startbit_def not_startbit_def checkbit_def)

lemma reachable_measuring: "reachable example_backend measuring"
proof -
  have "reachable example_backend ((reset_rplidar 10 idle)\<lparr>initialised := True\<rparr>)"
    by (rule after_reset) (simp_all add: reset_rplidar_def power_on_def idle_def)
  then have "reachable example_backend
      (foldl (get_readings_byte example_backend)
         ((reset_rplidar 10 idle)\<lparr>initialised := True\<rparr>) startup_rx)"
    by (rule reachable_foldl)
  then show ?thesis by (simp only: startup_run)
qed

lemma reachable_sync_lost: "reachable example_backend sync_lost"
proof -
  have "reachable example_backend
      (foldl (get_readings_byte example_backend) measuring bad_payload_rx)"
    using reachable_measuring by (rule reachable_foldl)
  then show ?thesis by (simp only: sync_lost_run)
qed

lemma sync_lost_fields:
  "rp_state sync_lost = rp_measurements" "sync_error sync_lost = 1"
  "byte_count sync_lost = 0" "payload_length sync_lost = 5"
  "response_type sync_lost = ResponseType_SCAN"
  "payload sync_lost = [0x03, 0x01, 0x05, 0x40, 0x1F]"
  "last_distance_received_ms sync_lost = 150"
  by (simp_all add: sync_lost_def measuring_def idle_def power_on_def)

lemma parse_response_descriptor_invalid:
  assumes "\<not> (descriptor s ! 0 = RPLIDAR_PREAMBLE \<and> descriptor s ! 1 = 0x5A)"
  shows "parse_response_descriptor now s = s\<lparr>rp_state := rp_unknown\<rparr>"
  unfolding parse_response_descriptor_def using assms by (rule if_not_P)

lemma parse_response_descriptor_unmatched:
  assumes "descriptor s ! 0 = RPLIDAR_PREAMBLE" and "descriptor s ! 1 = 0x5A"
    and "\<not> scan_descriptor (descriptor s)" and "\<not> health_descriptor (descriptor s)"
  shows "parse_response_descriptor now s = s"
  unfolding parse_response_descriptor_def Let_def
  by (simp only: assms if_True if_False simp_thms)

lemma bits_differ_invalid:
  "startbit p = not_startbit p \<or> checkbit p = 0 \<Longrightarrow> \<not> scan_valid p"
  by (auto simp add: scan_valid_def split: if_splits)

section \<open>Scan payload decoding\<close>

text \<open>
  Claim C2. A scan payload that passes the validity test decodes to the angle
  \<^verbatim>\<open>angle_q6 / 64\<close> degrees and the distance \<^verbatim>\<open>distance_q2 / 4000\<close> metres, where the
  angle field is the upper seven bits of byte 1 below the eight bits of byte 2 and the
  distance field is byte 3 below byte 4; an angle field of 640 with a distance field of
  8000 decodes to exactly 10 degrees and 2 metres.
\<close>

theorem scan_decode:
  assumes "scan_valid p"
  shows "decode_scan p = Some (real (unat (angle_q6 p)) / 64, real (unat (distance_q2 p)) / 4000)
       \<and> unat (angle_q6 p) = unat (p ! 1) div 2 + 128 * unat (p ! 2)
       \<and> unat (distance_q2 p) = unat (p ! 3) + 256 * unat (p ! 4)
       \<and> (unat (angle_q6 p) = 640 \<and> unat (distance_q2 p) = 8000 \<longrightarrow>
            decode_scan p = Some (10, 2))"
  using assms by (simp add: decode_scan_def unat_angle_q6 unat_distance_q2)

text \<open>The payload \<^verbatim>\<open>3D 01 05 40 1F\<close> carries the fields 640 and 8000.\<close>

theorem scan_decode_witness:
  "scan_valid [0x3D, 0x01, 0x05, 0x40, 0x1F] \<and>
   unat (angle_q6 [0x3D, 0x01, 0x05, 0x40, 0x1F]) = 640 \<and>
   unat (distance_q2 [0x3D, 0x01, 0x05, 0x40, 0x1F]) = 8000 \<and>
   decode_scan [0x3D, 0x01, 0x05, 0x40, 0x1F] = Some (10, 2)"
proof -
  have v: "scan_valid [0x3D, 0x01, 0x05, 0x40, 0x1F]"
    by (simp add: scan_valid_def startbit_def not_startbit_def checkbit_def)
  have a: "unat (angle_q6 [0x3D, 0x01, 0x05, 0x40, 0x1F]) = 640"
    and d: "unat (distance_q2 [0x3D, 0x01, 0x05, 0x40, 0x1F]) = 8000"
    using scan_decode [OF v] by simp_all
  show ?thesis using v a d scan_decode [OF v] by blast
qed

text \<open>
  Claim C3. A scan payload whose two start bits are equal, or whose check bit is 0,
  leaves every member as it was, the sector readings among them, except
  \<^verbatim>\<open>_sync_error\<close>, which is incremented; below the top of the 8-bit range the
  increment adds exactly one.
\<close>

theorem invalid_scan_payload:
  assumes "response_type s = ResponseType_SCAN"
    and "startbit (payload s) = not_startbit (payload s) \<or> checkbit (payload s) = 0"
  shows "parse_response_data bk now s = s\<lparr>sync_error := sync_error s + 1\<rparr> \<and>
         (sync_error s \<noteq> 255 \<longrightarrow>
            unat (sync_error (parse_response_data bk now s)) = unat (sync_error s) + 1)"
proof -
  have "\<not> scan_valid (payload s)" using assms(2) by (rule bits_differ_invalid)
  then have eq: "parse_response_data bk now s = s\<lparr>sync_error := sync_error s + 1\<rparr>"
    using assms(1) by (simp add: parse_response_data_def decode_scan_def)
  show ?thesis using eq by (simp add: unat_inc_uint8)
qed

theorem invalid_scan_payload_witness:
  "startbit [0x03, 0x01, 0x05, 0x40, 0x1F] = not_startbit [0x03, 0x01, 0x05, 0x40, 0x1F] \<and>
   parse_response_data example_backend 9
     (power_on\<lparr>response_type := ResponseType_SCAN, payload := [0x03, 0x01, 0x05, 0x40, 0x1F]\<rparr>)
   = power_on\<lparr>response_type := ResponseType_SCAN, payload := [0x03, 0x01, 0x05, 0x40, 0x1F],
              sync_error := 1\<rparr>"
  using invalid_scan_payload [of "power_on\<lparr>response_type := ResponseType_SCAN,
                      payload := [0x03, 0x01, 0x05, 0x40, 0x1F]\<rparr>" example_backend 9]
  by (simp add: startbit_def not_startbit_def power_on_def)

text \<open>
  Claim C10. A valid scan sample at or below \<^verbatim>\<open>distance_min()\<close> whose angle maps to a
  sector only stamps the receive time and clears the validity flag of that sector:
  the open sector, the retained minimum with its angle, the committed readings and the
  boundary log stay as they were, whichever sector is open.
\<close>

theorem dead_zone_sample:
  assumes "response_type s = ResponseType_SCAN"
    and "decode_scan (payload s) = Some (angle_deg, distance_m)"
    and "distance_m \<le> distance_min"
    and "sector_of bk s angle_deg = Some sector"
  shows "parse_response_data bk now s =
           s\<lparr>last_distance_received_ms := now,
             distance_valid := (distance_valid s)(sector := False)\<rparr>"
  using assms
  by (simp add: parse_response_data_def parse_scan_sample_def sector_of_def)

text \<open>A sample at 50 degrees and 0.2 m while sector 0 is open: sector 1 is marked invalid.\<close>

theorem dead_zone_sample_witness:
  "decode_scan [0x3E, 0x01, 0x19, 0x20, 0x03] = Some (50, 1 / 5) \<and>
   last_sector (power_on\<lparr>response_type := ResponseType_SCAN,
                      payload := [0x3E, 0x01, 0x19, 0x20, 0x03]\<rparr>) \<noteq> 1 \<and>
   parse_response_data example_backend 9
     (power_on\<lparr>response_type := ResponseType_SCAN, payload := [0x3E, 0x01, 0x19, 0x20, 0x03]\<rparr>)
   = power_on\<lparr>response_type := ResponseType_SCAN, payload := [0x3E, 0x01, 0x19, 0x20, 0x03],
       last_distance_received_ms := 9,
       distance_valid := (distance_valid
          (power_on\<lparr>response_type := ResponseType_SCAN,
                payload := [0x3E, 0x01, 0x19, 0x20, 0x03]\<rparr>))(1 := False)\<rparr>"
proof -
  let ?s = "power_on\<lparr>response_type := ResponseType_SCAN,
                      payload := [0x3E, 0x01, 0x19, 0x20, 0x03]\<rparr>"
  have v: "scan_valid [0x3E, 0x01, 0x19, 0x20, 0x03]"
    by (simp add: scan_valid_def startbit_def not_startbit_def checkbit_def)
  have d: "decode_scan (payload ?s) = Some (50, 1 / 5)"
    using v by (simp add: decode_scan_def unat_angle_q6 unat_distance_q2)
  have r: "response_type ?s = ResponseType_SCAN" by simp
  have m: "(1 / 5 :: real) \<le> distance_min" by (simp add: distance_min_def)
  have c: "sector_of example_backend ?s 50 = Some 1"
    by (simp add: sector_of_def example_backend_def)
  have l: "last_sector ?s \<noteq> 1" by (simp add: power_on_def)
  from d have d': "decode_scan [0x3E, 0x01, 0x19, 0x20, 0x03] = Some (50, 1 / 5)" by simp
  show ?thesis using d' l dead_zone_sample [OF r d m c, of 9] by blast
qed

section \<open>Descriptors\<close>

text \<open>
  A descriptor with the two header bytes and none of the two known tails is not turned
  into \<^verbatim>\<open>rp_unknown\<close>: the decoder stays in \<^verbatim>\<open>rp_responding\<close>.
\<close>

theorem unmatched_descriptor_not_unknown:
  "[0xA5, 0x5A, 0, 0, 0, 0, 0] \<noteq> scan_template \<and>
   [0xA5, 0x5A, 0, 0, 0, 0, 0] \<noteq> health_template \<and>
   rp_state (parse_response_descriptor 0
      (power_on\<lparr>rp_state := rp_responding, descriptor := [0xA5, 0x5A, 0, 0, 0, 0, 0]\<rparr>))
     = rp_responding \<and>
   rp_state (parse_response_descriptor 0
      (power_on\<lparr>rp_state := rp_responding, descriptor := [0xA5, 0x5A, 0, 0, 0, 0, 0]\<rparr>))
     \<noteq> rp_unknown"
proof -
  let ?s = "power_on\<lparr>rp_state := rp_responding, descriptor := [0xA5, 0x5A, 0, 0, 0, 0, 0]\<rparr>"
  have "parse_response_descriptor 0 ?s = ?s"
    by (rule parse_response_descriptor_unmatched)
       (simp_all add: RPLIDAR_PREAMBLE_def scan_descriptor_def health_descriptor_def)
  then show ?thesis
    by (simp add: scan_template_def health_template_def)
qed

text \<open>
  Claim C5, amended. For a completed 7-byte descriptor that equals neither template:
  if its first two bytes are not \<^verbatim>\<open>A5 5A\<close> the decoder state becomes
  \<^verbatim>\<open>rp_unknown\<close> and nothing else changes; if they are, the descriptor is ignored and
  the whole driver state, the decoder state included, stays as it was.
\<close>

theorem unmatched_descriptor:
  assumes "descriptor s = [d0, d1, d2, d3, d4, d5, d6]"
    and "descriptor s \<noteq> scan_template" and "descriptor s \<noteq> health_template"
  shows "parse_response_descriptor now s =
           (if d0 = 0xA5 \<and> d1 = 0x5A then s else s\<lparr>rp_state := rp_unknown\<rparr>)"
proof (cases "d0 = 0xA5 \<and> d1 = 0x5A")
  case True
  have ns: "\<not> scan_descriptor (descriptor s)"
    using assms(2) True unfolding assms(1) scan_template_def scan_descriptor_def by simp
  have nh: "\<not> health_descriptor (descriptor s)"
    using assms(3) True unfolding assms(1) health_template_def health_descriptor_def by simp
  have hd: "descriptor s ! 0 = RPLIDAR_PREAMBLE" "descriptor s ! 1 = 0x5A"
    using True unfolding assms(1) RPLIDAR_PREAMBLE_def by simp_all
  have "parse_response_descriptor now s = s"
    using hd ns nh by (rule parse_response_descriptor_unmatched)
  also have "s = (if d0 = 0xA5 \<and> d1 = 0x5A then s else s\<lparr>rp_state := rp_unknown\<rparr>)"
    using True by (rule if_P [symmetric])
  finally show ?thesis .
next
  case False
  then have "\<not> (descriptor s ! 0 = RPLIDAR_PREAMBLE \<and> descriptor s ! 1 = 0x5A)"
    unfolding assms(1) RPLIDAR_PREAMBLE_def by simp
  then have "parse_response_descriptor now s = s\<lparr>rp_state := rp_unknown\<rparr>"
    by (rule parse_response_descriptor_invalid)
  also have "s\<lparr>rp_state := rp_unknown\<rparr> =
      (if d0 = 0xA5 \<and> d1 = 0x5A then s else s\<lparr>rp_state := rp_unknown\<rparr>)"
    using False by (rule if_not_P [symmetric])
  finally show ?thesis .
qed

text \<open>The descriptor of a device-information response is ignored.\<close>

theorem unmatched_descriptor_witness:
  "parse_response_descriptor 7
     (power_on\<lparr>rp_state := rp_responding, descriptor := [0xA5, 0x5A, 0x14, 0, 0, 0, 4]\<rparr>)
     = power_on\<lparr>rp_state := rp_responding, descriptor := [0xA5, 0x5A, 0x14, 0, 0, 0, 4]\<rparr>"
  using unmatched_descriptor [of "power_on\<lparr>rp_state := rp_responding,
                     descriptor := [0xA5, 0x5A, 0x14, 0, 0, 0, 4]\<rparr>"
                  "0xA5" "0x5A" "0x14" 0 0 0 4 7]
  by (simp add: scan_template_def health_template_def)

section \<open>The health state\<close>

text \<open>
  In \<^verbatim>\<open>rp_health\<close> three bytes of a health payload change nothing, while the same
  first byte in \<^verbatim>\<open>rp_measurements\<close> is stored and counted.
\<close>

theorem health_bytes_not_accumulated:
  "get_readings example_backend [(2, 0), (0, 0), (0, 0)]
      (power_on\<lparr>rp_state := rp_health, payload_length := 3,
                response_type := ResponseType_Health\<rparr>)
     = power_on\<lparr>rp_state := rp_health, payload_length := 3,
                response_type := ResponseType_Health\<rparr>
   \<and> byte_count (get_readings example_backend [(2, 0)]
      (power_on\<lparr>rp_state := rp_measurements, payload_length := 3,
                response_type := ResponseType_Health\<rparr>)) = 1
   \<and> payload (get_readings example_backend [(2, 0)]
      (power_on\<lparr>rp_state := rp_measurements, payload_length := 3,
                response_type := ResponseType_Health\<rparr>)) = [2, 0, 0, 0, 0]"
  by (simp add: get_readings_def get_readings_byte_def case_rp_measurements_def power_on_def)

text \<open>
  Claim C6, amended. In the state \<^verbatim>\<open>rp_health\<close> every received byte is dropped and
  the driver state stays as it was; and \<^verbatim>\<open>parse_response_data\<close> on a health response
  changes no member, whatever the status byte.
\<close>

theorem health_is_inert:
  "(rp_state s = rp_health \<longrightarrow> get_readings bk rx s = s) \<and>
   (response_type s = ResponseType_Health \<longrightarrow> parse_response_data bk now s = s)"
proof -
  have "foldl (get_readings_byte bk) s rx = s" if "rp_state s = rp_health"
    using that by (induction rx) (simp_all add: get_readings_byte_def)
  then show ?thesis
    by (simp add: get_readings_def parse_response_data_def)
qed

theorem health_is_inert_witness:
  "get_readings example_backend [(2, 0), (0, 0), (0, 0)]
      (power_on\<lparr>rp_state := rp_health, response_type := ResponseType_Health,
                payload := [2, 0, 0, 0, 0]\<rparr>)
     = power_on\<lparr>rp_state := rp_health, response_type := ResponseType_Health,
                payload := [2, 0, 0, 0, 0]\<rparr>
   \<and> parse_response_data example_backend 9
      (power_on\<lparr>rp_state := rp_health, response_type := ResponseType_Health,
                payload := [2, 0, 0, 0, 0]\<rparr>)
     = power_on\<lparr>rp_state := rp_health, response_type := ResponseType_Health,
                payload := [2, 0, 0, 0, 0]\<rparr>"
  using health_is_inert [of "power_on\<lparr>rp_state := rp_health, response_type := ResponseType_Health,
                payload := [2, 0, 0, 0, 0]\<rparr>" example_backend "[(2, 0), (0, 0), (0, 0)]" 9]
  by simp

section \<open>Sync errors\<close>

text \<open>
  Claim C8. In a reachable state in \<^verbatim>\<open>rp_measurements\<close> with \<^verbatim>\<open>_sync_error\<close> set, a
  byte whose low two bits are not 01 is dropped (the payload buffer, the byte count and
  the sync error stay; after \<^verbatim>\<open>RESYNC_TIMEOUT\<close> the device is reset); a byte whose low
  two bits are 01 clears \<^verbatim>\<open>_sync_error\<close> and is stored as byte 0 of the payload, the
  byte count becoming 1.
\<close>

theorem resync_on_start_marker:
  assumes "reachable bk s" and "rp_state s = rp_measurements" and "sync_error s \<noteq> 0"
  shows "(c AND 0x03 \<noteq> 0x01 \<longrightarrow>
            get_readings_byte bk s (c, now) =
              (if now - last_distance_received_ms s > RESYNC_TIMEOUT
               then reset_rplidar now s else s)
            \<and> payload (get_readings_byte bk s (c, now)) = payload s
            \<and> byte_count (get_readings_byte bk s (c, now)) = byte_count s
            \<and> sync_error (get_readings_byte bk s (c, now)) = sync_error s)
       \<and> (c AND 0x03 = 0x01 \<longrightarrow>
            get_readings_byte bk s (c, now) =
              s\<lparr>sync_error := 0, payload := (payload s)[0 := c], byte_count := 1\<rparr>
            \<and> payload (get_readings_byte bk s (c, now)) ! 0 = c)"
proof -
  have inv: "decoder_inv s" using assms(1) by (rule reachable_inv)
  then have bc: "byte_count s = 0" and pl: "payload_length s = 5"
    and len: "length (payload s) = 5"
    using assms(2,3) by (simp_all add: decoder_inv_def)
  have d: "get_readings_byte bk s (c, now) =
              (if now - last_distance_received_ms s > RESYNC_TIMEOUT
               then reset_rplidar now s else s)" if "c AND 0x03 \<noteq> 0x01"
    using that assms(2,3) by (simp add: get_readings_byte_def case_rp_measurements_def)
  have r: "get_readings_byte bk s (c, now) =
              s\<lparr>sync_error := 0, payload := (payload s)[0 := c], byte_count := 1\<rparr>"
    if "c AND 0x03 = 0x01"
    using that assms(2,3) bc pl
    by (simp add: get_readings_byte_def case_rp_measurements_def Let_def)
  have r0: "payload (s\<lparr>sync_error := 0, payload := (payload s)[0 := c], byte_count := 1\<rparr>) ! 0 = c"
    using len by simp
  have d1: "payload (if now - last_distance_received_ms s > RESYNC_TIMEOUT
               then reset_rplidar now s else s) = payload s"
     and d2: "byte_count (if now - last_distance_received_ms s > RESYNC_TIMEOUT
               then reset_rplidar now s else s) = byte_count s"
     and d3: "sync_error (if now - last_distance_received_ms s > RESYNC_TIMEOUT
               then reset_rplidar now s else s) = sync_error s"
    by (simp_all add: reset_rplidar_def)
  show ?thesis
  proof (cases "c AND 0x03 = 0x01")
    case True
    with r r0 show ?thesis by (simp only: simp_thms)
  next
    case False
    with d d1 d2 d3 show ?thesis by (simp only: simp_thms)
  qed
qed

theorem resync_on_start_marker_witness:
  "rp_state sync_lost = rp_measurements \<and> sync_error sync_lost \<noteq> 0
   \<and> byte_count (get_readings_byte example_backend sync_lost (0x3E, 170)) = 0
   \<and> payload (get_readings_byte example_backend sync_lost (0x3E, 170)) = payload sync_lost
   \<and> sync_error (get_readings_byte example_backend sync_lost (0x3D, 171)) = 0
   \<and> byte_count (get_readings_byte example_backend sync_lost (0x3D, 171)) = 1
   \<and> payload (get_readings_byte example_backend sync_lost (0x3D, 171)) ! 0 = 0x3D"
proof -
  have m: "rp_state sync_lost = rp_measurements" and e: "sync_error sync_lost \<noteq> 0"
    by (simp_all add: sync_lost_fields)
  have n: "(0x3E :: uint8_t) AND 0x03 \<noteq> 0x01" and y: "(0x3D :: uint8_t) AND 0x03 = 0x01"
    by simp_all
  show ?thesis
    using m e n y resync_on_start_marker [OF reachable_sync_lost m e, of "0x3E" 170]
      resync_on_start_marker [OF reachable_sync_lost m e, of "0x3D" 171]
    by (simp add: sync_lost_fields RESYNC_TIMEOUT_def)
qed

text \<open>
  Claim C9. In every reachable state \<^verbatim>\<open>_sync_error\<close> is 0 or 1. A byte changes it
  only in \<^verbatim>\<open>rp_measurements\<close>: while it is set and the byte is no start marker it
  stays; otherwise it is 1 after the byte exactly if the byte completes a scan payload
  that \<^verbatim>\<open>parse_response_data\<close> rejects, and 0 if not.
\<close>

theorem sync_error_0_or_1:
  assumes "reachable bk s"
  shows "(sync_error s = 0 \<or> sync_error s = 1) \<and>
         sync_error (get_readings_byte bk s (c, now)) =
           (if rp_state s \<noteq> rp_measurements then sync_error s
            else if sync_error s \<noteq> 0 \<and> c AND 0x03 \<noteq> 0x01 then sync_error s
            else if unat (byte_count s + 1) = unat (payload_length s)
                    \<and> response_type s = ResponseType_SCAN
                    \<and> \<not> scan_valid ((payload s)[unat (byte_count s) := c])
                 then 1 else 0)"
proof -
  have inv: "decoder_inv s" using assms by (rule reachable_inv)
  then have a: "sync_error s = 0 \<or> sync_error s = 1" by (simp add: decoder_inv_def)
  have b: "sync_error (get_readings_byte bk s (c, now)) = sync_error s"
    if "rp_state s \<noteq> rp_measurements"
    using that
    by (cases "rp_state s")
       (simp_all add: get_readings_byte_def case_rp_unknown_def case_rp_resetted_def
          case_rp_responding_def set_scan_mode_def reset_rplidar_def Let_def
          parse_response_descriptor_fields)
  have c: "sync_error (get_readings_byte bk s (c, now)) =
           (if sync_error s \<noteq> 0 \<and> c AND 0x03 \<noteq> 0x01 then sync_error s
            else if unat (byte_count s + 1) = unat (payload_length s)
                    \<and> response_type s = ResponseType_SCAN
                    \<and> \<not> scan_valid ((payload s)[unat (byte_count s) := c])
                 then 1 else 0)"
    if "rp_state s = rp_measurements"
    using that
    by (simp add: get_readings_byte_def case_rp_measurements_def reset_rplidar_def Let_def
          parse_response_data_fields parse_response_data_sync_error)
  show ?thesis using a b c by simp
qed

theorem sync_error_0_or_1_witness:
  "sync_error sync_lost = 1 \<and>
   sync_error (get_readings_byte example_backend sync_lost (0x3D, 170)) = 0"
  using sync_error_0_or_1 [OF reachable_sync_lost, of "0x3D" 170]
  by (simp add: sync_lost_fields)


section \<open>Sector aggregation\<close>

lemma sector_of_parse_scan_sample:
  "sector_of bk (parse_scan_sample bk now x s) a = sector_of bk s a"
  by (simp add: sector_of_def parse_scan_sample_def Let_def split: option.split)

lemma same_sector_sample:
  assumes "sector_of bk s a = Some sec" and "d > distance_min" and "last_sector s = sec"
  shows "last_sector (parse_scan_sample bk now (a, d) s) = sec"
    and "angle (parse_scan_sample bk now (a, d) s) = angle s"
    and "distance (parse_scan_sample bk now (a, d) s) = distance s"
    and "distance_valid (parse_scan_sample bk now (a, d) s) = distance_valid s"
    and "boundary_log (parse_scan_sample bk now (a, d) s) = boundary_log s"
    and "distance_m_last (parse_scan_sample bk now (a, d) s) = min d (distance_m_last s)"
    and "(angle_deg_last (parse_scan_sample bk now (a, d) s),
          distance_m_last (parse_scan_sample bk now (a, d) s))
           \<in> {(a, d), (angle_deg_last s, distance_m_last s)}"
  using assms by (simp_all add: parse_scan_sample_def Let_def sector_of_def)

lemma new_sector_sample:
  assumes "sector_of bk s a = Some sec" and "d > distance_min" and "last_sector s \<noteq> sec"
  shows "last_sector (parse_scan_sample bk now (a, d) s) = sec"
    and "angle (parse_scan_sample bk now (a, d) s) = (angle s)(last_sector s := angle_deg_last s)"
    and "distance (parse_scan_sample bk now (a, d) s)
           = (distance s)(last_sector s := distance_m_last s)"
    and "distance_valid (parse_scan_sample bk now (a, d) s)
           = (distance_valid s)(last_sector s := True)"
    and "boundary_log (parse_scan_sample bk now (a, d) s)
           = boundary_log s @ [update_boundary_for_sector (last_sector s)]"
    and "distance_m_last (parse_scan_sample bk now (a, d) s) = d"
    and "angle_deg_last (parse_scan_sample bk now (a, d) s) = a"
  using assms by (simp_all add: parse_scan_sample_def Let_def sector_of_def)

lemma dwell_open:
  assumes "\<forall>tx \<in> set txs. snd (snd tx) > distance_min
             \<and> sector_of bk s (fst (snd tx)) = Some sec"
    and "last_sector s = sec"
  shows "last_sector (parse_scan_samples bk txs s) = sec
       \<and> angle (parse_scan_samples bk txs s) = angle s
       \<and> distance (parse_scan_samples bk txs s) = distance s
       \<and> distance_valid (parse_scan_samples bk txs s) = distance_valid s
       \<and> boundary_log (parse_scan_samples bk txs s) = boundary_log s
       \<and> distance_m_last (parse_scan_samples bk txs s)
           = fold min (map (snd \<circ> snd) txs) (distance_m_last s)
       \<and> (angle_deg_last (parse_scan_samples bk txs s),
          distance_m_last (parse_scan_samples bk txs s))
           \<in> insert (angle_deg_last s, distance_m_last s) (snd ` set txs)"
  using assms
proof (induction txs arbitrary: s)
  case Nil
  then show ?case by (simp add: parse_scan_samples_def)
next
  case (Cons tx txs)
  obtain now a d where tx: "tx = (now, a, d)" by (cases tx) auto
  let ?s = "parse_scan_sample bk now (a, d) s"
  have hd: "sector_of bk s a = Some sec" "d > distance_min"
    using Cons.prems(1) tx by simp_all
  note step = same_sector_sample [OF hd Cons.prems(2), of now]
  have "\<forall>tx \<in> set txs. snd (snd tx) > distance_min
             \<and> sector_of bk ?s (fst (snd tx)) = Some sec"
    using Cons.prems(1) by (simp add: sector_of_parse_scan_sample)
  from Cons.IH [OF this step(1)]
  have ih: "last_sector (parse_scan_samples bk txs ?s) = sec"
    "angle (parse_scan_samples bk txs ?s) = angle ?s"
    "distance (parse_scan_samples bk txs ?s) = distance ?s"
    "distance_valid (parse_scan_samples bk txs ?s) = distance_valid ?s"
    "boundary_log (parse_scan_samples bk txs ?s) = boundary_log ?s"
    "distance_m_last (parse_scan_samples bk txs ?s)
           = fold min (map (snd \<circ> snd) txs) (distance_m_last ?s)"
    "(angle_deg_last (parse_scan_samples bk txs ?s),
          distance_m_last (parse_scan_samples bk txs ?s))
           \<in> insert (angle_deg_last ?s, distance_m_last ?s) (snd ` set txs)"
    by blast+
  have unf: "parse_scan_samples bk (tx # txs) s = parse_scan_samples bk txs ?s"
    by (simp add: parse_scan_samples_def tx)
  have g6: "distance_m_last (parse_scan_samples bk txs ?s)
           = fold min (map (snd \<circ> snd) (tx # txs)) (distance_m_last s)"
    using ih(6) step(6) by (simp add: tx)
  have g7: "(angle_deg_last (parse_scan_samples bk txs ?s),
          distance_m_last (parse_scan_samples bk txs ?s))
           \<in> insert (angle_deg_last s, distance_m_last s) (snd ` set (tx # txs))"
    using ih(7) step(7) by (auto simp add: tx)
  show ?case
    unfolding unf using ih(1) ih(2-5) [unfolded step(2-5)] g6 g7 by blast
qed


text \<open>
  A dwell that begins with the sample that enters the sector. Let a non-empty sequence
  of samples, all farther than \<^verbatim>\<open>distance_min()\<close> and all mapping to one sector, enter
  that sector (another sector was open before). After the sequence the sector is open
  and the aggregator retains the minimum of their distances together with the angle of
  a sample that has this distance; nothing has been committed to the sector meanwhile,
  and the boundary code was called once, for the sector left on entry. The next sample
  beyond \<^verbatim>\<open>distance_min()\<close> that maps to another sector commits exactly the retained
  distance and angle to the sector, marks it valid, calls the boundary code once for it,
  and opens the new sector with the incoming sample as retained reading.
\<close>

theorem sector_dwell_commit:
  assumes "txs \<noteq> []"
    and "\<forall>tx \<in> set txs. snd (snd tx) > distance_min
             \<and> sector_of bk s (fst (snd tx)) = Some sec"
    and "last_sector s \<noteq> sec"
    and "d' > distance_min" and "sector_of bk s a' = Some sec'" and "sec' \<noteq> sec"
  shows "last_sector (parse_scan_samples bk txs s) = sec
       \<and> distance_m_last (parse_scan_samples bk txs s) = Min (snd ` snd ` set txs)
       \<and> (angle_deg_last (parse_scan_samples bk txs s),
          distance_m_last (parse_scan_samples bk txs s)) \<in> snd ` set txs
       \<and> angle (parse_scan_samples bk txs s) sec = angle s sec
       \<and> distance (parse_scan_samples bk txs s) sec = distance s sec
       \<and> distance_valid (parse_scan_samples bk txs s) sec = distance_valid s sec
       \<and> boundary_log (parse_scan_samples bk txs s)
           = boundary_log s @ [update_boundary_for_sector (last_sector s)]
       \<and> angle (parse_scan_sample bk now' (a', d') (parse_scan_samples bk txs s))
           = (angle (parse_scan_samples bk txs s))
               (sec := angle_deg_last (parse_scan_samples bk txs s))
       \<and> distance (parse_scan_sample bk now' (a', d') (parse_scan_samples bk txs s))
           = (distance (parse_scan_samples bk txs s))
               (sec := Min (snd ` snd ` set txs))
       \<and> distance_valid (parse_scan_sample bk now' (a', d') (parse_scan_samples bk txs s))
           = (distance_valid (parse_scan_samples bk txs s))(sec := True)
       \<and> boundary_log (parse_scan_sample bk now' (a', d') (parse_scan_samples bk txs s))
           = boundary_log (parse_scan_samples bk txs s) @ [update_boundary_for_sector sec]
       \<and> last_sector (parse_scan_sample bk now' (a', d') (parse_scan_samples bk txs s)) = sec'
       \<and> distance_m_last (parse_scan_sample bk now' (a', d') (parse_scan_samples bk txs s)) = d'
       \<and> angle_deg_last (parse_scan_sample bk now' (a', d') (parse_scan_samples bk txs s)) = a'"
proof -
  obtain now a d rest where txs: "txs = (now, a, d) # rest"
    using assms(1) by (cases txs) auto
  let ?s0 = "parse_scan_sample bk now (a, d) s"
  let ?s1 = "parse_scan_samples bk txs s"
  have hd: "sector_of bk s a = Some sec" "d > distance_min"
    using assms(2) txs by simp_all
  note entry = new_sector_sample [OF hd assms(3), of now]
  have unf: "?s1 = parse_scan_samples bk rest ?s0"
    by (simp add: parse_scan_samples_def txs)
  have "\<forall>tx \<in> set rest. snd (snd tx) > distance_min
             \<and> sector_of bk ?s0 (fst (snd tx)) = Some sec"
    using assms(2) txs by (simp add: sector_of_parse_scan_sample)
  from dwell_open [OF this entry(1)]
  have dw: "last_sector ?s1 = sec" "angle ?s1 = angle ?s0" "distance ?s1 = distance ?s0"
    "distance_valid ?s1 = distance_valid ?s0" "boundary_log ?s1 = boundary_log ?s0"
    "distance_m_last ?s1 = fold min (map (snd \<circ> snd) rest) (distance_m_last ?s0)"
    "(angle_deg_last ?s1, distance_m_last ?s1)
       \<in> insert (angle_deg_last ?s0, distance_m_last ?s0) (snd ` set rest)"
    unfolding unf by blast+
  have "snd ` snd ` set txs = set (d # map (snd \<circ> snd) rest)"
    by (simp add: txs image_image)
  then have "Min (snd ` snd ` set txs) = fold min (map (snd \<circ> snd) rest) d"
    by (simp only: Min.set_eq_fold)
  then have mn: "distance_m_last ?s1 = Min (snd ` snd ` set txs)"
    using dw(6) entry(6) by simp
  have pr: "(angle_deg_last ?s1, distance_m_last ?s1) \<in> snd ` set txs"
    using dw(7) entry(6,7) by (simp add: txs)
  have so: "sector_of bk ?s1 a' = Some sec'"
    unfolding parse_scan_samples_def
    using assms(5) by (induction txs arbitrary: s) (simp_all add: sector_of_parse_scan_sample)
  have ne: "last_sector ?s1 \<noteq> sec'" using dw(1) assms(6) by simp
  note commit = new_sector_sample [OF so assms(4) ne, of now']
  show ?thesis
    using mn pr dw entry commit assms(3) by simp
qed


text \<open>Four samples in sector 1, the closest at 2 m, then one in sector 2.\<close>

theorem sector_dwell_commit_witness:
  "last_sector power_on \<noteq> 1
   \<and> distance_m_last (parse_scan_samples example_backend
        [(1, 50, 3), (2, 60, 2), (3, 70, 5 / 2), (4, 80, 2)] power_on) = 2
   \<and> angle_deg_last (parse_scan_samples example_backend
        [(1, 50, 3), (2, 60, 2), (3, 70, 5 / 2), (4, 80, 2)] power_on) \<in> {60, 80}
   \<and> distance (parse_scan_sample example_backend 5 (100, 4)
        (parse_scan_samples example_backend
           [(1, 50, 3), (2, 60, 2), (3, 70, 5 / 2), (4, 80, 2)] power_on)) 1 = 2
   \<and> distance_valid (parse_scan_sample example_backend 5 (100, 4)
        (parse_scan_samples example_backend
           [(1, 50, 3), (2, 60, 2), (3, 70, 5 / 2), (4, 80, 2)] power_on)) 1
   \<and> last_sector (parse_scan_sample example_backend 5 (100, 4)
        (parse_scan_samples example_backend
           [(1, 50, 3), (2, 60, 2), (3, 70, 5 / 2), (4, 80, 2)] power_on)) = 2"
proof -
  let ?txs = "[(1, 50, 3), (2, 60, 2), (3, 70, 5 / 2), (4, 80, 2)] :: (uint32_t \<times> real \<times> real) list"
  have h1: "?txs \<noteq> []" by simp
  have h2: "\<forall>tx \<in> set ?txs. snd (snd tx) > distance_min
             \<and> sector_of example_backend power_on (fst (snd tx)) = Some 1"
    by (simp add: distance_min_def sector_of_def example_backend_def)
  have h3: "last_sector power_on \<noteq> 1" by (simp add: power_on_def)
  have h4: "(4::real) > distance_min" by (simp add: distance_min_def)
  have h5: "sector_of example_backend power_on 100 = Some 2"
    by (simp add: sector_of_def example_backend_def)
  have h6: "(2::nat) \<noteq> 1" by simp
  have mn: "Min (snd ` snd ` set ?txs) = 2" by simp
  show ?thesis
    using h3 sector_dwell_commit [OF h1 h2 h3 h4 h5 h6, of 5] unfolding mn by auto
qed


section \<open>Sector partitioning\<close>

lemma wrap_360_of_int: "\<lfloor>wrap_360 (of_int x)\<rfloor> = x mod 360"
proof -
  have "\<lfloor>real_of_int x / 360\<rfloor> = x div 360"
    using floor_divide_of_int_eq [of x 360, where 'a = real] by simp
  then have "wrap_360 (of_int x) = of_int (x - 360 * (x div 360))"
    by (simp add: wrap_360_def)
  also have "x - 360 * (x div 360) = x mod 360"
    by (simp add: minus_mult_div_eq_mod)
  finally show ?thesis by simp
qed

lemma fill_330:
  assumes "8 \<le> PROXIMITY_SECTORS_MAX bk"
  shows "fst (fill_sectors bk a 330 0 s) = 8"
    and "sector_width_deg (snd (fill_sectors bk a 330 0 s)) =
           (sector_width_deg s)(0 := 45, 1 := 45, 2 := 45, 3 := 45, 4 := 45, 5 := 45,
                                6 := 30, 7 := 30)"
    and "sector_middle_deg (snd (fill_sectors bk a 330 0 s)) =
           (sector_middle_deg s)
             (0 := to_sector_middle bk (wrap_360 (of_int a + 45 / 2)),
              1 := to_sector_middle bk (wrap_360 (of_int a + 45 + 45 / 2)),
              2 := to_sector_middle bk (wrap_360 (of_int a + 90 + 45 / 2)),
              3 := to_sector_middle bk (wrap_360 (of_int a + 135 + 45 / 2)),
              4 := to_sector_middle bk (wrap_360 (of_int a + 180 + 45 / 2)),
              5 := to_sector_middle bk (wrap_360 (of_int a + 225 + 45 / 2)),
              6 := to_sector_middle bk (wrap_360 (of_int a + 270 + 30 / 2)),
              7 := to_sector_middle bk (wrap_360 (of_int a + 300 + 30 / 2)))"
    and "sector_initialised (snd (fill_sectors bk a 330 0 s)) = sector_initialised s"
    and "boundary_log (snd (fill_sectors bk a 330 0 s)) = boundary_log s"
  using assms
  by (simp_all add: fill_sectors_step fill_sectors_stop sector_size_def add.assoc eval_nat_numeral)


lemma init_sectors_area_Some:
  assumes "get_ignore_area bk i = Some (ign_area_angle, ign_area_width)"
  shows "init_sectors_area bk (n, s) i =
           fill_sectors bk (get_next_ignore_start_or_end bk 1 ign_area_angle)
             ((get_next_ignore_start_or_end bk 0
                 (get_next_ignore_start_or_end bk 1 ign_area_angle)
               - get_next_ignore_start_or_end bk 1 ign_area_angle) mod 360) n s"
  unfolding init_sectors_area_def Let_def assms wrap_360_of_int
  by (simp only: option.case prod.case fst_conv snd_conv)

lemma init_sectors_single:
  assumes "get_ignore_area_count bk = 1"
    and "get_ignore_area bk 0 = Some (ign_area_angle, ign_area_width)"
  shows "init_sectors bk s =
     (let start_angle = get_next_ignore_start_or_end bk 1 ign_area_angle;
          end_angle = get_next_ignore_start_or_end bk 0 start_angle;
          r = fill_sectors bk start_angle ((end_angle - start_angle) mod 360) 0 s
      in (snd r)\<lparr>num_sectors := fst r,
                 boundary_log := boundary_log (snd r) @ [init_boundary],
                 sector_initialised := True\<rparr>)"
proof -
  have "foldl (init_sectors_area bk) (0, s) [0 ..< get_ignore_area_count bk]
          = init_sectors_area bk (0, s) 0"
    by (simp add: assms(1))
  then show ?thesis
    unfolding init_sectors_def init_sectors_area_Some [OF assms(2)] Let_def
    by (simp add: assms(1))
qed

lemma less_8_cases:
  "(i::nat) < 8 \<Longrightarrow> i = 0 \<or> i = 1 \<or> i = 2 \<or> i = 3 \<or> i = 4 \<or> i = 5 \<or> i = 6 \<or> i = 7"
  by arith


text \<open>
  Claim C4. With a single ignore area of width 30 whose open arc, from its end round to
  its start, measures 330 degrees, and room for eight sectors, \<^verbatim>\<open>init_sectors\<close> lays out
  eight sectors of widths 45, 45, 45, 45, 45, 45, 30, 30: each positive and at most 45,
  each chosen by the rule of \<open>sector_size\<close> from the arc that remains, each centred on
  the interval that begins where the sectors before it end, and together 330 degrees.
\<close>

theorem single_blind_spot_sectors:
  assumes "get_ignore_area_count bk = 1"
    and "get_ignore_area bk 0 = Some (ign_area_angle, 30)"
    and "start_angle = get_next_ignore_start_or_end bk 1 ign_area_angle"
    and "end_angle = get_next_ignore_start_or_end bk 0 start_angle"
    and "(end_angle - start_angle) mod 360 = 330"
    and "8 \<le> PROXIMITY_SECTORS_MAX bk"
  shows "num_sectors (init_sectors bk s) = 8
       \<and> map (sector_width_deg (init_sectors bk s)) [0 ..< 8] = [45, 45, 45, 45, 45, 45, 30, 30]
       \<and> (\<forall>i<8. 0 < sector_width_deg (init_sectors bk s) i
                \<and> sector_width_deg (init_sectors bk s) i \<le> 45)
       \<and> (\<Sum>i<8. sector_width_deg (init_sectors bk s) i) = 330
       \<and> (\<forall>i<8. sector_width_deg (init_sectors bk s) i =
                  sector_size (330 - (\<Sum>j<i. sector_width_deg (init_sectors bk s) j)))
       \<and> (\<forall>i<8. sector_middle_deg (init_sectors bk s) i =
                  to_sector_middle bk (wrap_360
                    (of_int (start_angle + (\<Sum>j<i. sector_width_deg (init_sectors bk s) j))
                      + of_int (sector_width_deg (init_sectors bk s) i) / 2)))"
proof -
  let ?s = "init_sectors bk s"
  have eq: "?s = (snd (fill_sectors bk start_angle 330 0 s))
                \<lparr>num_sectors := fst (fill_sectors bk start_angle 330 0 s),
                  boundary_log := boundary_log (snd (fill_sectors bk start_angle 330 0 s))
                                    @ [init_boundary],
                  sector_initialised := True\<rparr>"
    using init_sectors_single [OF assms(1,2), of s] assms(3,4,5)
    by (simp only: Let_def)
  have n: "num_sectors ?s = 8"
    unfolding eq using fill_330(1) [OF assms(6)] by simp
  have w: "sector_width_deg ?s =
           (sector_width_deg s)(0 := 45, 1 := 45, 2 := 45, 3 := 45, 4 := 45, 5 := 45,
                                6 := 30, 7 := 30)"
    unfolding eq using fill_330(2) [OF assms(6), of start_angle s] by simp
  have m: "sector_middle_deg ?s =
           (sector_middle_deg s)
             (0 := to_sector_middle bk (wrap_360 (of_int start_angle + 45 / 2)),
              1 := to_sector_middle bk (wrap_360 (of_int start_angle + 45 + 45 / 2)),
              2 := to_sector_middle bk (wrap_360 (of_int start_angle + 90 + 45 / 2)),
              3 := to_sector_middle bk (wrap_360 (of_int start_angle + 135 + 45 / 2)),
              4 := to_sector_middle bk (wrap_360 (of_int start_angle + 180 + 45 / 2)),
              5 := to_sector_middle bk (wrap_360 (of_int start_angle + 225 + 45 / 2)),
              6 := to_sector_middle bk (wrap_360 (of_int start_angle + 270 + 30 / 2)),
              7 := to_sector_middle bk (wrap_360 (of_int start_angle + 300 + 30 / 2)))"
    unfolding eq using fill_330(3) [OF assms(6), of start_angle s] by simp
  have wl: "map (sector_width_deg ?s) [0 ..< 8] = [45, 45, 45, 45, 45, 45, 30, 30]"
    unfolding w by (simp add: upt_rec)
  have sums: "(\<Sum>j<0. sector_width_deg ?s j) = 0" "(\<Sum>j<1. sector_width_deg ?s j) = 45"
    "(\<Sum>j<2. sector_width_deg ?s j) = 90" "(\<Sum>j<3. sector_width_deg ?s j) = 135"
    "(\<Sum>j<4. sector_width_deg ?s j) = 180" "(\<Sum>j<5. sector_width_deg ?s j) = 225"
    "(\<Sum>j<6. sector_width_deg ?s j) = 270" "(\<Sum>j<7. sector_width_deg ?s j) = 300"
    "(\<Sum>j<8. sector_width_deg ?s j) = 330"
    unfolding w by (simp_all add: eval_nat_numeral lessThan_Suc)
  have vals: "sector_width_deg ?s 0 = 45" "sector_width_deg ?s 1 = 45"
    "sector_width_deg ?s 2 = 45" "sector_width_deg ?s 3 = 45" "sector_width_deg ?s 4 = 45"
    "sector_width_deg ?s 5 = 45" "sector_width_deg ?s 6 = 30" "sector_width_deg ?s 7 = 30"
    unfolding w by simp_all
  have mids: "sector_middle_deg ?s 0 = to_sector_middle bk (wrap_360 (of_int start_angle + 45 / 2))"
    "sector_middle_deg ?s 1 = to_sector_middle bk (wrap_360 (of_int start_angle + 45 + 45 / 2))"
    "sector_middle_deg ?s 2 = to_sector_middle bk (wrap_360 (of_int start_angle + 90 + 45 / 2))"
    "sector_middle_deg ?s 3 = to_sector_middle bk (wrap_360 (of_int start_angle + 135 + 45 / 2))"
    "sector_middle_deg ?s 4 = to_sector_middle bk (wrap_360 (of_int start_angle + 180 + 45 / 2))"
    "sector_middle_deg ?s 5 = to_sector_middle bk (wrap_360 (of_int start_angle + 225 + 45 / 2))"
    "sector_middle_deg ?s 6 = to_sector_middle bk (wrap_360 (of_int start_angle + 270 + 30 / 2))"
    "sector_middle_deg ?s 7 = to_sector_middle bk (wrap_360 (of_int start_angle + 300 + 30 / 2))"
    unfolding m by simp_all
  have bound: "\<forall>i<8. 0 < sector_width_deg ?s i \<and> sector_width_deg ?s i \<le> 45"
  proof (intro allI impI)
    fix i :: nat assume "i < 8"
    from less_8_cases [OF this] show "0 < sector_width_deg ?s i \<and> sector_width_deg ?s i \<le> 45"
      using vals by (elim disjE) simp_all
  qed
  have rule: "\<forall>i<8. sector_width_deg ?s i =
                  sector_size (330 - (\<Sum>j<i. sector_width_deg ?s j))"
  proof (intro allI impI)
    fix i :: nat assume "i < 8"
    from less_8_cases [OF this]
    show "sector_width_deg ?s i = sector_size (330 - (\<Sum>j<i. sector_width_deg ?s j))"
      by (elim disjE) (simp_all only: vals sums, simp_all add: sector_size_def)
  qed
  have mid: "\<forall>i<8. sector_middle_deg ?s i =
                  to_sector_middle bk (wrap_360
                    (of_int (start_angle + (\<Sum>j<i. sector_width_deg ?s j))
                      + of_int (sector_width_deg ?s i) / 2))"
  proof (intro allI impI)
    fix i :: nat assume "i < 8"
    from less_8_cases [OF this]
    show "sector_middle_deg ?s i =
                  to_sector_middle bk (wrap_360
                    (of_int (start_angle + (\<Sum>j<i. sector_width_deg ?s j))
                      + of_int (sector_width_deg ?s i) / 2))"
      by (elim disjE) (simp_all only: vals sums mids, simp_all)
  qed
  show ?thesis
    using n wl bound sums(9) rule mid by blast
qed

theorem single_blind_spot_sectors_witness:
  "get_ignore_area_count blind_spot_backend = 1
   \<and> get_ignore_area blind_spot_backend 0 = Some (180, 30)
   \<and> (get_next_ignore_start_or_end blind_spot_backend 0 195
        - get_next_ignore_start_or_end blind_spot_backend 1 180) mod 360 = 330
   \<and> num_sectors (init_sectors blind_spot_backend power_on) = 8
   \<and> map (sector_width_deg (init_sectors blind_spot_backend power_on)) [0 ..< 8]
        = [45, 45, 45, 45, 45, 45, 30, 30]
   \<and> sector_middle_deg (init_sectors blind_spot_backend power_on) 0 = 435 / 2"
proof -
  have h1: "get_ignore_area_count blind_spot_backend = 1"
    and h2: "get_ignore_area blind_spot_backend 0 = Some (180, 30)"
    and h3: "195 = get_next_ignore_start_or_end blind_spot_backend 1 180"
    and h4: "165 = get_next_ignore_start_or_end blind_spot_backend 0 195"
    and h6: "8 \<le> PROXIMITY_SECTORS_MAX blind_spot_backend"
    and tm: "to_sector_middle blind_spot_backend = (\<lambda>x. x)"
    by (simp_all add: blind_spot_backend_def example_backend_def)
  have h5: "((165::int) - 195) mod 360 = 330" by simp
  have w0: "wrap_360 (435 / 2) = 435 / 2"
    by (simp add: wrap_360_def)
  note t = single_blind_spot_sectors [OF h1 h2 h3 h4 h5 h6, of power_on]
  from t have wd: "sector_width_deg (init_sectors blind_spot_backend power_on) 0 = 45"
    by (simp add: upt_rec)
  note mid = t [THEN conjunct2, THEN conjunct2, THEN conjunct2, THEN conjunct2, THEN conjunct2,
                rule_format, of 0]
  have m0: "sector_middle_deg (init_sectors blind_spot_backend power_on) 0 = 435 / 2"
    using mid w0 unfolding wd tm by simp
  show ?thesis
    using h1 h2 h3 [symmetric] h4 [symmetric] h5 t m0 by simp
qed


section \<open>The health status\<close>

lemma parse_scan_sample_stamp:
  "last_distance_received_ms (parse_scan_sample bk now sample s) = now"
  by (simp add: parse_scan_sample_def Let_def split: option.split)

lemma parse_response_data_stamp:
  "last_distance_received_ms (parse_response_data bk now s) =
     (if response_type s = ResponseType_SCAN \<and> scan_valid (payload s) then now
      else last_distance_received_ms s)"
  by (simp add: parse_response_data_def parse_scan_sample_stamp decode_scan_def
        split: ResponseType.split)

lemma parse_response_descriptor_stamp:
  "last_distance_received_ms (parse_response_descriptor now s) =
     (if descriptor s ! 0 = RPLIDAR_PREAMBLE \<and> descriptor s ! 1 = 0x5A
         \<and> (scan_descriptor (descriptor s) \<or> health_descriptor (descriptor s))
      then now else last_distance_received_ms s)"
  by (simp add: parse_response_descriptor_def Let_def)

lemma responding_stamp:
  "last_distance_received_ms (case_rp_responding c now s) =
     (if (c = RPLIDAR_PREAMBLE \<or> descriptor_data s) \<and> byte_count s + 1 = 7
         \<and> (descriptor s)[unat (byte_count s) := c] ! 0 = RPLIDAR_PREAMBLE
         \<and> (descriptor s)[unat (byte_count s) := c] ! 1 = 0x5A
         \<and> (scan_descriptor ((descriptor s)[unat (byte_count s) := c])
              \<or> health_descriptor ((descriptor s)[unat (byte_count s) := c]))
      then now else last_distance_received_ms s)"
  by (auto simp add: case_rp_responding_def Let_def parse_response_descriptor_stamp)

lemma byte_stamp:
  "last_distance_received_ms (get_readings_byte bk s (c, now)) =
     (if measurement_complete s c \<or> descriptor_recognised s c then now
      else last_distance_received_ms s)"
proof (cases "rp_state s")
  case rp_unknown
  show ?thesis
  proof (cases "c = RPLIDAR_PREAMBLE")
    case True
    have "get_readings_byte bk s (c, now) = case_rp_responding c now (s\<lparr>rp_state := rp_responding\<rparr>)"
      using rp_unknown True by (simp add: get_readings_byte_def case_rp_unknown_def)
    then show ?thesis
      using rp_unknown True
      by (auto simp add: responding_stamp measurement_complete_def descriptor_recognised_def)
  next
    case False
    then show ?thesis
      using rp_unknown
      by (simp add: get_readings_byte_def case_rp_unknown_def Let_def
            reset_rplidar_def measurement_complete_def descriptor_recognised_def)
  qed
next
  case rp_resetted
  then show ?thesis
    by (simp add: get_readings_byte_def case_rp_resetted_def set_scan_mode_def
          measurement_complete_def descriptor_recognised_def)
next
  case rp_responding
  then show ?thesis
    by (auto simp add: get_readings_byte_def responding_stamp
          measurement_complete_def descriptor_recognised_def)
next
  case rp_measurements
  then show ?thesis
    by (simp add: get_readings_byte_def case_rp_measurements_def Let_def
          parse_response_data_stamp reset_rplidar_def
          measurement_complete_def descriptor_recognised_def)
next
  case rp_health
  then show ?thesis
    by (simp add: get_readings_byte_def measurement_complete_def descriptor_recognised_def)
qed

lemma first_update: "update example_backend 0 [] 0 power_on = idle"
  by (simp add: update_def initialise_def init_sectors_def get_readings_def Let_def
        example_backend_def power_on_def idle_def)

lemma second_update:
  "update example_backend 10 startup_rx 250 idle = measuring\<lparr>status := Some Proximity_Good\<rparr>"
proof -
  have i: "initialise example_backend 10 idle = (True, reset_rplidar 10 idle)"
    by (simp add: initialise_def idle_def power_on_def)
  have u: "uart ((reset_rplidar 10 idle)\<lparr>initialised := True\<rparr>)"
    by (simp add: reset_rplidar_def idle_def power_on_def)
  have g: "get_readings example_backend startup_rx ((reset_rplidar 10 idle)\<lparr>initialised := True\<rparr>)
             = measuring"
    unfolding get_readings_def using u startup_run by simp
  have f: "\<not> initialised idle" "uart idle" by (simp_all add: idle_def power_on_def)
  have l: "last_distance_received_ms measuring = 150"
    by (simp add: measuring_def idle_def power_on_def)
  show ?thesis
    by (simp add: update_def Let_def f i g l COMM_ACTIVITY_TIMEOUT_MS_def)
qed

lemma no_completes_startup:
  "measurement_completes example_backend ((reset_rplidar 10 idle)\<lparr>initialised := True\<rparr>)
     startup_rx = 0"
  by (simp add: startup_rx_def measurement_complete_def power_on_def idle_def decoder_defs)


text \<open>
  From power-on, two calls of \<^verbatim>\<open>update\<close>; the second resets the device at 10 ms, reads
  the scan descriptor at 150 ms and tests the time-out at 250 ms. No measurement has been
  decoded in either call, and the status is \<^verbatim>\<open>Good\<close>.
\<close>

theorem good_without_measurement:
  "update_measurement_completes example_backend 0 [] power_on = 0
   \<and> update_measurement_completes example_backend 10 startup_rx
        (update example_backend 0 [] 0 power_on) = 0
   \<and> status (update example_backend 10 startup_rx 250 (update example_backend 0 [] 0 power_on))
        = Some Proximity_Good"
proof -
  have a: "update_measurement_completes example_backend 0 [] power_on = 0"
    by (simp add: update_measurement_completes_def Let_def)
  have i: "initialise example_backend 10 idle = (True, reset_rplidar 10 idle)"
    by (simp add: initialise_def idle_def power_on_def)
  have f: "\<not> initialised idle" "uart idle" by (simp_all add: idle_def power_on_def)
  have b: "update_measurement_completes example_backend 10 startup_rx idle = 0"
    by (simp add: update_measurement_completes_def Let_def f i no_completes_startup)
  show ?thesis
    by (simp add: first_update second_update a b)
qed


text \<open>
  Claim C7, amended. After a call of \<^verbatim>\<open>update\<close> on a driver with a serial port the
  status is \<^verbatim>\<open>NoData\<close> exactly if \<^verbatim>\<open>_last_distance_received_ms\<close> is 0 or the clock is
  more than 200 ms past it (in unsigned 32-bit arithmetic), and \<^verbatim>\<open>Good\<close> otherwise;
  without a serial port \<^verbatim>\<open>update\<close> changes nothing. A received byte sets that time
  stamp to the clock exactly if it completes a scan payload that is decoded
  successfully or a recognised scan or health descriptor, and leaves it otherwise.
\<close>

theorem health_status_after_update:
  "(uart s \<longrightarrow>
      status (update bk t_init rx t_check s) =
        Some (if last_distance_received_ms (update bk t_init rx t_check s) = 0
                 \<or> t_check - last_distance_received_ms (update bk t_init rx t_check s) > 200
              then Proximity_NoData else Proximity_Good))
   \<and> (\<not> uart s \<longrightarrow> update bk t_init rx t_check s = s)
   \<and> last_distance_received_ms (get_readings_byte bk s (c, now)) =
       (if measurement_complete s c \<or> descriptor_recognised s c then now
        else last_distance_received_ms s)"
proof -
  have a: "status (update bk t_init rx t_check s) =
        Some (if last_distance_received_ms (update bk t_init rx t_check s) = 0
                 \<or> t_check - last_distance_received_ms (update bk t_init rx t_check s) > 200
              then Proximity_NoData else Proximity_Good)" if "uart s"
    using that by (simp add: update_def Let_def COMM_ACTIVITY_TIMEOUT_MS_def)
  have b: "update bk t_init rx t_check s = s" if "\<not> uart s"
    using that by (simp add: update_def)
  show ?thesis using a b byte_stamp by blast
qed

theorem health_status_after_update_witness:
  "uart power_on \<and> uart idle
   \<and> status (update example_backend 0 [] 0 power_on) = Some Proximity_NoData
   \<and> status (update example_backend 10 startup_rx 250 idle) = Some Proximity_Good"
proof -
  have u: "uart power_on" "uart idle" by (simp_all add: idle_def power_on_def)
  have l0: "last_distance_received_ms idle = 0" by (simp add: idle_def power_on_def)
  have l1: "last_distance_received_ms (measuring\<lparr>status := Some Proximity_Good\<rparr>) = 150"
    by (simp add: measuring_def idle_def power_on_def)
  show ?thesis
    using u health_status_after_update [of power_on example_backend 0 "[]" 0]
      health_status_after_update [of idle example_backend 10 startup_rx 250]
    by (simp add: first_update second_update l0 l1)
qed


section \<open>The first dwell after power-on\<close>

text \<open>
  The constructor sets neither \<^verbatim>\<open>_last_sector\<close> nor \<^verbatim>\<open>_distance_m_last\<close> and
  \<^verbatim>\<open>_angle_deg_last\<close>; in \<open>power_on\<close> they are 0, and nothing writes them before the
  first scan sample.
\<close>

lemma example_decodes:
  "decode_scan [0x3D, 0x01, 0x05, 0xE0, 0x2E] = Some (10, 3)"
  "decode_scan [0x3E, 0x01, 0x0A, 0x40, 0x1F] = Some (20, 2)"
  "decode_scan [0x3E, 0x01, 0x19, 0x80, 0x3E] = Some (50, 4)"
  by (simp_all add: decode_scan_def scan_valid_def startbit_def not_startbit_def checkbit_def
        unat_angle_q6 unat_distance_q2)

lemma first_dwell_run:
  "foldl (get_readings_byte example_backend) (measuring\<lparr>status := Some Proximity_Good\<rparr>)
     first_dwell_rx =
   measuring\<lparr>status := Some Proximity_Good, payload := [0x3E, 0x01, 0x0A, 0x40, 0x1F],
     last_distance_received_ms := 301\<rparr>"
  by (simp add: first_dwell_rx_def measuring_def idle_def power_on_def get_readings_byte_def
        case_rp_measurements_def Let_def parse_response_data_def example_decodes
        parse_scan_sample_def sector_of_def example_backend_def distance_min_def)

lemma next_sector_run:
  "foldl (get_readings_byte example_backend)
     (measuring\<lparr>status := Some Proximity_Good, payload := [0x3E, 0x01, 0x0A, 0x40, 0x1F],
        last_distance_received_ms := 301\<rparr>) next_sector_rx =
   measuring\<lparr>status := Some Proximity_Good, payload := [0x3E, 0x01, 0x19, 0x80, 0x3E],
     last_distance_received_ms := 302,
     angle := (\<lambda>i. 0)(0 := 0), distance := (\<lambda>i. 0)(0 := 0),
     distance_valid := (\<lambda>i. False)(0 := True),
     boundary_log := [update_boundary_for_sector 0],
     last_sector := 1, distance_m_last := 4, angle_deg_last := 50\<rparr>"
  by (simp add: next_sector_rx_def measuring_def idle_def power_on_def get_readings_byte_def
        case_rp_measurements_def Let_def parse_response_data_def example_decodes
        parse_scan_sample_def sector_of_def example_backend_def distance_min_def)

lemma scanning_state: "scanning = measuring\<lparr>status := Some Proximity_Good\<rparr>"
  unfolding scanning_def by (simp only: first_update second_update)

lemma scanning_fields:
  "uart scanning" "initialised scanning"
  by (simp_all add: scanning_state measuring_def idle_def power_on_def)

lemma update_scanning:
  "update example_backend t_init rx t_check scanning =
     (let s2 = foldl (get_readings_byte example_backend) scanning rx
      in if last_distance_received_ms s2 = 0
            \<or> t_check - last_distance_received_ms s2 > COMM_ACTIVITY_TIMEOUT_MS
         then s2\<lparr>status := Some Proximity_NoData\<rparr>
         else s2\<lparr>status := Some Proximity_Good\<rparr>)"
  by (simp add: update_def get_readings_def scanning_fields Let_def)

text \<open>
  Claim C1 (the aggregator retains the minimum distance observed in a sector with its
  angle and commits exactly that on the next sector change), on the first dwell after
  power-on. The payloads of \<open>first_dwell_rx\<close> decode to 10 degrees at 3 m and 20 degrees
  at 2 m, both beyond \<^verbatim>\<open>distance_min()\<close> and both in sector 0, which is the sector
  that \<^verbatim>\<open>_last_sector\<close> names from the start. Neither sample is retained: the retained
  reading stays 0 m at 0 degrees, which no sample had. The payload of
  \<open>next_sector_rx\<close>, 50 degrees at 4 m in sector 1, then commits 0 m at 0 degrees to
  sector 0 and marks it valid.
\<close>

theorem first_dwell_commits_unset_reading:
  "decode_scan [0x3D, 0x01, 0x05, 0xE0, 0x2E] = Some (10, 3)
   \<and> decode_scan [0x3E, 0x01, 0x0A, 0x40, 0x1F] = Some (20, 2)
   \<and> decode_scan [0x3E, 0x01, 0x19, 0x80, 0x3E] = Some (50, 4)
   \<and> distance_min < 2
   \<and> sector_of example_backend scanning 10 = Some 0
   \<and> sector_of example_backend scanning 20 = Some 0
   \<and> sector_of example_backend scanning 50 = Some 1
   \<and> last_sector (update example_backend 300 first_dwell_rx 320 scanning) = 0
   \<and> distance_m_last (update example_backend 300 first_dwell_rx 320 scanning) = 0
   \<and> angle_deg_last (update example_backend 300 first_dwell_rx 320 scanning) = 0
   \<and> distance (update example_backend 300 (first_dwell_rx @ next_sector_rx) 320 scanning) 0 = 0
   \<and> angle (update example_backend 300 (first_dwell_rx @ next_sector_rx) 320 scanning) 0 = 0
   \<and> distance_valid
        (update example_backend 300 (first_dwell_rx @ next_sector_rx) 320 scanning) 0
   \<and> boundary_log (update example_backend 300 (first_dwell_rx @ next_sector_rx) 320 scanning)
        = [update_boundary_for_sector 0]"
proof -
  have so: "sector_of example_backend scanning 10 = Some 0"
    "sector_of example_backend scanning 20 = Some 0"
    "sector_of example_backend scanning 50 = Some 1"
    by (simp_all add: sector_of_def example_backend_def)
  have dm: "distance_min < 2" by (simp add: distance_min_def)
  have r1: "foldl (get_readings_byte example_backend) scanning first_dwell_rx =
      measuring\<lparr>status := Some Proximity_Good, payload := [0x3E, 0x01, 0x0A, 0x40, 0x1F],
        last_distance_received_ms := 301\<rparr>"
    by (simp only: scanning_state first_dwell_run)
  have r2: "foldl (get_readings_byte example_backend) scanning (first_dwell_rx @ next_sector_rx) =
      measuring\<lparr>status := Some Proximity_Good, payload := [0x3E, 0x01, 0x19, 0x80, 0x3E],
        last_distance_received_ms := 302,
        angle := (\<lambda>i. 0)(0 := 0), distance := (\<lambda>i. 0)(0 := 0),
        distance_valid := (\<lambda>i. False)(0 := True),
        boundary_log := [update_boundary_for_sector 0],
        last_sector := 1, distance_m_last := 4, angle_deg_last := 50\<rparr>"
    by (simp only: foldl_append r1 next_sector_run)
  have u1: "last_sector (update example_backend 300 first_dwell_rx 320 scanning) = 0"
    "distance_m_last (update example_backend 300 first_dwell_rx 320 scanning) = 0"
    "angle_deg_last (update example_backend 300 first_dwell_rx 320 scanning) = 0"
    unfolding update_scanning r1
    by (simp_all add: Let_def measuring_def idle_def power_on_def)
  have u2: "distance (update example_backend 300 (first_dwell_rx @ next_sector_rx) 320 scanning) 0 = 0"
    "angle (update example_backend 300 (first_dwell_rx @ next_sector_rx) 320 scanning) 0 = 0"
    "distance_valid
        (update example_backend 300 (first_dwell_rx @ next_sector_rx) 320 scanning) 0"
    "boundary_log (update example_backend 300 (first_dwell_rx @ next_sector_rx) 320 scanning)
        = [update_boundary_for_sector 0]"
    unfolding update_scanning r2
    by (simp_all add: Let_def)
  show ?thesis
    using example_decodes dm so u1 u2 by blast
qed

end
